(* ===== verification/Prelude.thy ===== *)
theory Prelude
  imports Complex_Main
begin

text \<open>
  Shared vocabulary of the development: the JavaScript values the dashboard sends and
  receives (JSON documents, form-data parts, uploaded files), the string operations its
  code calls (\<open>String.prototype.split\<close> and \<open>Array.prototype.join\<close> with a one-character
  separator, the \<open>||\<close> default of a possibly empty string), and the lemmas on them that
  the component theories share.  The collection \<open>model_simps\<close> gathers the
  characteristic equations the component proofs unfold.
\<close>

named_theorems model_simps "equations of the model that component proofs unfold"

section \<open>JavaScript values\<close>

text \<open>
  A JSON document as \<open>JSON.stringify\<close> sees it.  Numbers are rationals: the dashboard
  only uses prices and stock counts typed into number fields, never values where
  floating-point rounding matters.  Object members keep their insertion order, as
  JavaScript objects do for string keys.
\<close>

datatype json =
    JNull
  | JBool bool
  | JNum rat
  | JStr string
  | JArr "json list"
  | JObj "(string \<times> json) list"

text \<open>A browser \<open>File\<close> object, identified by its name.\<close>

datatype js_file = File string

text \<open>
  A value appended to a \<open>FormData\<close>: a string or a file.  \<open>FormData.append\<close>
  converts every other value to a string, so appending \<open>undefined\<close> stores the string
  \<open>''undefined''\<close>.  \<open>FVJson j\<close> is the string \<open>JSON.stringify(j)\<close>, kept
  as the document it encodes.
\<close>

datatype form_value = FVString string | FVFile js_file | FVJson json

type_synonym form_data = "(string \<times> form_value) list"

text \<open>
  \<open>FormData.append(name, v)\<close> for a value that may be \<open>undefined\<close> (a
  \<open>File | undefined\<close> state variable cast with \<open>as File\<close>).
\<close>

definition fd_append_file :: "string \<Rightarrow> js_file option \<Rightarrow> form_data \<Rightarrow> form_data" where
  "fd_append_file k v fd = fd @ [(k, case v of None \<Rightarrow> FVString ''undefined'' | Some f \<Rightarrow> FVFile f)]"

text \<open>All entries of a form under one name, as \<open>FormData.getAll\<close> returns them.\<close>

definition fd_get_all :: "form_data \<Rightarrow> string \<Rightarrow> form_value list" where
  "fd_get_all fd k = map snd (filter (\<lambda>e. fst e = k) fd)"

text \<open>JavaScript truthiness of a JSON value, as \<open>if (res)\<close> tests it.\<close>

fun js_truthy :: "json \<Rightarrow> bool" where
  "js_truthy JNull = False"
| "js_truthy (JBool b) = b"
| "js_truthy (JNum x) = (x \<noteq> 0)"
| "js_truthy (JStr s) = (s \<noteq> [])"
| "js_truthy (JArr _) = True"
| "js_truthy (JObj _) = True"

text \<open>\<open>v?.k\<close>: a member of an object, nothing for any other value.\<close>

fun json_get :: "string \<Rightarrow> json \<Rightarrow> json option" where
  "json_get k (JObj kvs) = map_of kvs k"
| "json_get k _ = None"

text \<open>A notification shown with \<open>ShowToastify\<close> or \<open>toast\<close>.\<close>

datatype toast = ToastSuccess string | ToastError string

section \<open>Strings\<close>

text \<open>\<open>s || d\<close> for a string \<open>s\<close>: the empty string is the only falsy string.\<close>

definition str_or :: "string \<Rightarrow> string \<Rightarrow> string" where
  "str_or s d = (if s = [] then d else s)"

text \<open>
  \<open>s.split(c)\<close> for a one-character separator: the pieces between separators, the
  empty string giving \<open>[""]\<close>.  The current piece is the accumulator.
\<close>

fun split_acc :: "char \<Rightarrow> string \<Rightarrow> string \<Rightarrow> string list" where
  "split_acc c cur [] = [cur]"
| "split_acc c cur (x # xs) =
     (if x = c then cur # split_acc c [] xs else split_acc c (cur @ [x]) xs)"

definition js_split :: "char \<Rightarrow> string \<Rightarrow> string list" where
  "js_split c s = split_acc c [] s"

text \<open>\<open>xs.join(c)\<close>: the empty array joins to the empty string.\<close>

fun js_join :: "char \<Rightarrow> string list \<Rightarrow> string" where
  "js_join c [] = []"
| "js_join c [w] = w"
| "js_join c (w # ws) = w @ c # js_join c ws"

section \<open>Lemmas on the string operations\<close>

lemma split_acc_nonempty [simp]: "split_acc c cur s \<noteq> []"
  by (induction c cur s rule: split_acc.induct) auto

lemma js_split_nonempty [model_simps]: "js_split c s \<noteq> []"
  by (simp add: js_split_def)

lemma split_acc_no_sep:
  "c \<notin> set s \<Longrightarrow> split_acc c cur s = [cur @ s]"
  by (induction c cur s rule: split_acc.induct) auto

lemma split_acc_append_sep:
  "c \<notin> set w \<Longrightarrow> split_acc c cur (w @ c # s) = (cur @ w) # split_acc c [] s"
  by (induction w arbitrary: cur) auto

lemma split_acc_join:
  "\<forall>w\<in>set ws. c \<notin> set w \<Longrightarrow> ws \<noteq> [] \<Longrightarrow>
   split_acc c cur (js_join c ws) = (cur @ hd ws) # tl ws"
proof (induction c ws arbitrary: cur rule: js_join.induct)
  case (2 c w)
  then show ?case by (simp add: split_acc_no_sep)
next
  case (3 c w v vs)
  then show ?case by (simp add: split_acc_append_sep)
qed simp

text \<open>Joining and splitting again gives the pieces back, when no piece holds the separator.\<close>

lemma js_split_join [model_simps]:
  "\<forall>w\<in>set ws. c \<notin> set w \<Longrightarrow> ws \<noteq> [] \<Longrightarrow> js_split c (js_join c ws) = ws"
  by (simp add: js_split_def split_acc_join)

lemma join_split_acc: "js_join c (split_acc c cur s) = cur @ s"
proof (induction c cur s rule: split_acc.induct)
  case (2 c cur x xs)
  then show ?case
    by (cases "split_acc c [] xs") auto
qed simp

text \<open>Splitting and joining again gives the string back, for every string.\<close>

lemma js_join_split [model_simps]: "js_join c (js_split c s) = s"
  by (simp add: js_split_def join_split_acc)

lemma split_acc_pieces: "w \<in> set (split_acc c cur s) \<Longrightarrow> c \<notin> set cur \<Longrightarrow> c \<notin> set w"
  by (induction c cur s rule: split_acc.induct) (auto split: if_splits)

lemma js_split_pieces [model_simps]: "w \<in> set (js_split c s) \<Longrightarrow> c \<notin> set w"
  by (auto simp: js_split_def dest: split_acc_pieces)

section \<open>Lemmas on lists\<close>

lemma count_list_remove1 [simp]:
  "count_list (remove1 x xs) y = (if x = y then count_list xs y - 1 else count_list xs y)"
  by (induction xs) auto

lemma distinct_count_list:
  "distinct xs \<Longrightarrow> count_list xs x = (if x \<in> set xs then 1 else 0)"
  by (induction xs) auto

end
