(* ===== verification/Transport.thy ===== *)
theory Transport
  imports Prelude
begin

text \<open>
  The transport layer, \<open>src/src/Redux/Api/baseApi.ts\<close>: one API slice whose
  \<open>fetchBaseQuery\<close> targets a fixed base URL and whose \<open>prepareHeaders\<close> copies the
  \<open>accessToken\<close> cookie, verbatim, into the \<open>Authorization\<close> header when the cookie is
  set and non-empty; and the declared cache tag types.  An endpoint's \<open>query\<close>
  function yields a \<open>request\<close> (URL path, method, body); \<open>fetch_request\<close> turns it
  into what goes on the wire.
\<close>

section \<open>Tags, methods, requests\<close>

text \<open>
  Every cache tag the sources name.  \<open>ApproveEvent\<close> is the tag of the blog and upload
  endpoints; it is not among the declared \<open>tagTypes\<close>.
\<close>

datatype tag = LogIn | Transaction | AllUsers | AllProducts | AllOrders | ApproveEvent

definition tag_types :: "tag list" where
  "tag_types = [LogIn, Transaction, AllUsers, AllProducts, AllOrders]"

definition base_url :: string where
  "base_url = ''http://104.236.194.254:5009/api/v1''"

datatype http_method = GET | POST | PUT | PATCH | DELETE

datatype body = NoBody | JsonBody json | FormBody form_data

text \<open>The \<open>{url, method, body}\<close> object an endpoint's \<open>query\<close> function returns.\<close>

record request =
  url :: string
  req_method :: http_method
  req_body :: body

type_synonym headers = "(string \<times> string) list"

text \<open>\<open>Headers.set\<close>: replaces any earlier value of the header.\<close>

definition headers_set :: "string \<Rightarrow> string \<Rightarrow> headers \<Rightarrow> headers" where
  "headers_set k v hs = filter (\<lambda>h. fst h \<noteq> k) hs @ [(k, v)]"

text \<open>
  \<open>prepareHeaders\<close>: \<open>Cookies.get("accessToken")\<close> is \<open>undefined\<close> (\<open>None\<close>) or a
  string; \<open>if (token)\<close> is false for \<open>undefined\<close> and for the empty string.
\<close>

definition prepare_headers :: "string option \<Rightarrow> headers \<Rightarrow> headers" where
  "prepare_headers cookie hs =
     (case cookie of
        None \<Rightarrow> hs
      | Some token \<Rightarrow> if token \<noteq> [] then headers_set ''Authorization'' token hs else hs)"

section \<open>Joining the base URL\<close>

text \<open>
  \<open>joinUrls(base, url)\<close> of \<open>fetchBaseQuery\<close>: an empty side yields the other, an
  absolute URL (one holding \<open>//\<close> at its start or after a colon) is kept, otherwise
  one trailing slash of the base and one leading slash of the path are dropped and a
  slash is put between them, except before a query string on a base without a
  trailing slash.
\<close>

fun has_scheme_sep :: "string \<Rightarrow> bool" where
  "has_scheme_sep [] = False"
| "has_scheme_sep (x # xs) = (take 3 (x # xs) = ''://'' \<or> has_scheme_sep xs)"

definition is_absolute_url :: "string \<Rightarrow> bool" where
  "is_absolute_url u = (take 2 u = ''//'' \<or> has_scheme_sep u)"

definition without_trailing_slash :: "string \<Rightarrow> string" where
  "without_trailing_slash s = (if s \<noteq> [] \<and> last s = CHR ''/'' then butlast s else s)"

definition without_leading_slash :: "string \<Rightarrow> string" where
  "without_leading_slash s = (if s \<noteq> [] \<and> hd s = CHR ''/'' then tl s else s)"

definition join_urls :: "string \<Rightarrow> string \<Rightarrow> string" where
  "join_urls base u =
     (if base = [] then u
      else if u = [] then base
      else if is_absolute_url u then u
      else
        let delim = (if (last base = CHR ''/'') \<or> \<not> (hd u = CHR ''?'') then ''/'' else [])
        in without_trailing_slash base @ delim @ without_leading_slash u)"

section \<open>The request on the wire\<close>

record http_request =
  full_url :: string
  http_method :: http_method
  http_headers :: headers
  http_body :: body

definition fetch_request :: "string option \<Rightarrow> request \<Rightarrow> http_request" where
  "fetch_request cookie r =
     \<lparr>full_url = join_urls base_url (url r), http_method = req_method r,
      http_headers = prepare_headers cookie [], http_body = req_body r\<rparr>"

section \<open>Lemmas\<close>

lemma headers_set_lookup [model_simps]: "map_of (rev (headers_set k v hs)) k = Some v"
  by (simp add: headers_set_def)

lemma headers_set_other [model_simps]:
  "k' \<noteq> k \<Longrightarrow> map_of (rev (headers_set k v hs)) k' = map_of (rev hs) k'"
  by (induction hs rule: rev_induct) (auto simp: headers_set_def)

text \<open>
  Where \<open>://\<close> can occur in a concatenation: a string of fewer than three characters
  holds none, and when the right part does not start with a slash no occurrence
  straddles the seam.
\<close>

lemma has_scheme_sep_short: "length xs < 3 \<Longrightarrow> \<not> has_scheme_sep xs"
  by (induction xs) (auto simp: numeral_3_eq_3)

lemma has_scheme_sep_append:
  assumes "ys \<noteq> []" and "hd ys \<noteq> CHR ''/''"
  shows "has_scheme_sep (xs @ ys) \<longleftrightarrow> has_scheme_sep xs \<or> has_scheme_sep ys"
  using assms
proof (induction xs)
  case (Cons x xs)
  have "take 3 (x # xs @ ys) = ''://'' \<longleftrightarrow> take 3 (x # xs) = ''://''"
    using Cons.prems
    by (cases ys; cases xs; cases "tl xs") (auto simp: numeral_3_eq_3)
  with Cons show ?case by auto
qed simp

lemma base_url_facts [model_simps]:
  "base_url \<noteq> []" "last base_url \<noteq> CHR ''/''"
  "without_trailing_slash base_url = base_url"
  by (simp_all add: base_url_def without_trailing_slash_def)

text \<open>
  For a relative path (no \<open>://\<close>, not starting with \<open>//\<close> or \<open>?\<close>), the full
  URL is the base, one slash, and the path: a path written with or without its leading
  slash reaches the same URL.
\<close>

lemma join_base_url:
  assumes "p \<noteq> []" "hd p \<notin> {CHR ''/'', CHR ''?''}" "\<not> has_scheme_sep p" "take 2 p \<noteq> ''//''"
  shows "join_urls base_url p = base_url @ CHR ''/'' # p"
    and "join_urls base_url (CHR ''/'' # p) = base_url @ CHR ''/'' # p"
proof -
  have t: "take 2 (CHR ''/'' # p) \<noteq> ''//''"
    using assms(1,2) by (cases p) auto
  show "join_urls base_url p = base_url @ CHR ''/'' # p"
    using assms
    by (auto simp: join_urls_def is_absolute_url_def without_leading_slash_def base_url_facts)
  show "join_urls base_url (CHR ''/'' # p) = base_url @ CHR ''/'' # p"
    using assms t
    by (auto simp: join_urls_def is_absolute_url_def without_leading_slash_def base_url_facts)
qed

end
