(* ===== verification/ProductApi.thy ===== *)
theory ProductApi
  imports Transport
begin

text \<open>
  The product and order endpoints, \<open>src/src/Redux/Api/productApi.ts\<close>.  An endpoint
  together with its argument is one constructor of \<open>product_call\<close>, named as the
  endpoint is; \<open>product_query\<close> is the endpoint's \<open>query\<close> function,
  \<open>product_provides\<close> its \<open>providesTags\<close> (queries) and \<open>product_invalidates\<close> its
  \<open>invalidatesTags\<close> (mutations).  Path parameters are the strings the template
  literals interpolate.
\<close>

datatype product_call =
    addProduct body
  | allProducts
  | deleteProduct string
  | singleProduct string
  | updateProduct string body
  | orderHistory string
  | orderStatus string json

fun product_query :: "product_call \<Rightarrow> request" where
  "product_query (addProduct data) = \<lparr>url = ''/products'', req_method = POST, req_body = data\<rparr>"
| "product_query allProducts = \<lparr>url = ''/products'', req_method = GET, req_body = NoBody\<rparr>"
| "product_query (deleteProduct i) =
     \<lparr>url = ''/products/'' @ i, req_method = DELETE, req_body = NoBody\<rparr>"
| "product_query (singleProduct i) =
     \<lparr>url = ''/products/'' @ i, req_method = GET, req_body = NoBody\<rparr>"
| "product_query (updateProduct i data) =
     \<lparr>url = ''/products/'' @ i, req_method = PATCH, req_body = data\<rparr>"
| "product_query (orderHistory st) =
     \<lparr>url = ''/orders/all?status='' @ st, req_method = GET, req_body = NoBody\<rparr>"
| "product_query (orderStatus i st) =
     \<lparr>url = ''/orders/'' @ i, req_method = PATCH, req_body = JsonBody st\<rparr>"

fun product_is_query :: "product_call \<Rightarrow> bool" where
  "product_is_query allProducts = True"
| "product_is_query (singleProduct _) = True"
| "product_is_query (orderHistory _) = True"
| "product_is_query _ = False"

fun product_provides :: "product_call \<Rightarrow> tag list" where
  "product_provides allProducts = [AllProducts]"
| "product_provides (singleProduct _) = [AllProducts]"
| "product_provides (orderHistory _) = [AllOrders]"
| "product_provides _ = []"

fun product_invalidates :: "product_call \<Rightarrow> tag list" where
  "product_invalidates (addProduct _) = [AllProducts]"
| "product_invalidates (deleteProduct _) = [AllProducts]"
| "product_invalidates (updateProduct _ _) = [AllProducts]"
| "product_invalidates (orderStatus _ _) = [AllOrders]"
| "product_invalidates _ = []"

end
