(* ===== verification/UserApi.thy ===== *)
theory UserApi
  imports Transport
begin

text \<open>
  The authentication and user endpoints, \<open>src/src/Redux/Api/userApi.ts\<close>, in the
  shape of \<open>ProductApi\<close>.  \<open>allUsers\<close> takes the page, the page size and the e-mail
  filter as the strings its template literal interpolates; \<open>userStatusUpdate\<close> wraps
  the status in an object \<open>{status}\<close>.
\<close>

datatype user_call =
    loginUser json
  | allUsers string string string
  | userStatusUpdate string json

fun user_query :: "user_call \<Rightarrow> request" where
  "user_query (loginUser data) = \<lparr>url = ''/auth/login'', req_method = POST, req_body = JsonBody data\<rparr>"
| "user_query (allUsers page limit email) =
     \<lparr>url = ''/users?page='' @ page @ ''&limit='' @ limit @ ''&email='' @ email,
      req_method = GET, req_body = NoBody\<rparr>"
| "user_query (userStatusUpdate i st) =
     \<lparr>url = ''/users/update-status/'' @ i, req_method = PUT,
      req_body = JsonBody (JObj [(''status'', st)])\<rparr>"

fun user_is_query :: "user_call \<Rightarrow> bool" where
  "user_is_query (allUsers _ _ _) = True"
| "user_is_query _ = False"

fun user_provides :: "user_call \<Rightarrow> tag list" where
  "user_provides (allUsers _ _ _) = [AllUsers]"
| "user_provides _ = []"

fun user_invalidates :: "user_call \<Rightarrow> tag list" where
  "user_invalidates (loginUser _) = [LogIn]"
| "user_invalidates (userStatusUpdate _ _) = [AllUsers]"
| "user_invalidates _ = []"

end
