(* ===== verification/BlogApi.thy ===== *)
theory BlogApi
  imports Transport
begin

text \<open>
  The blog endpoints, \<open>src/src/Redux/Api/blogApi.ts\<close> (the module calls its slice
  \<open>eventApi\<close>), in the shape of \<open>ProductApi\<close>.  All four share the tag
  \<open>"approveEvent"\<close>.
\<close>

datatype blog_call =
    blog
  | addblog json
  | deleteBlog string
  | updateBlog string json

fun blog_query :: "blog_call \<Rightarrow> request" where
  "blog_query blog = \<lparr>url = ''/blogs'', req_method = GET, req_body = NoBody\<rparr>"
| "blog_query (addblog data) =
     \<lparr>url = ''/blogs/create-blog'', req_method = POST, req_body = JsonBody data\<rparr>"
| "blog_query (deleteBlog i) = \<lparr>url = ''/blogs/'' @ i, req_method = DELETE, req_body = NoBody\<rparr>"
| "blog_query (updateBlog i data) =
     \<lparr>url = ''/blogs/'' @ i, req_method = PATCH, req_body = JsonBody data\<rparr>"

fun blog_is_query :: "blog_call \<Rightarrow> bool" where
  "blog_is_query blog = True"
| "blog_is_query _ = False"

fun blog_provides :: "blog_call \<Rightarrow> tag list" where
  "blog_provides blog = [ApproveEvent]"
| "blog_provides _ = []"

fun blog_invalidates :: "blog_call \<Rightarrow> tag list" where
  "blog_invalidates blog = []"
| "blog_invalidates _ = [ApproveEvent]"

end
