(* ===== verification/UploadApi.thy ===== *)
theory UploadApi
  imports Transport
begin

text \<open>
  The file-upload endpoint, \<open>src/src/Redux/Api/uploadApi.ts\<close>: one mutation whose
  path has no leading slash and which invalidates the blog tag.
\<close>

datatype upload_call = upload body

fun upload_query :: "upload_call \<Rightarrow> request" where
  "upload_query (upload data) = \<lparr>url = ''products/upload-file'', req_method = POST, req_body = data\<rparr>"

fun upload_invalidates :: "upload_call \<Rightarrow> tag list" where
  "upload_invalidates (upload _) = [ApproveEvent]"

end
