(* ===== verification/Api.thy ===== *)
theory Api
  imports ProductApi UserApi BlogApi UploadApi
begin

text \<open>
  The API slice as a whole: \<open>baseApi.injectEndpoints\<close> of the four endpoint modules.
  \<open>api_call\<close> is the interface the cache and the views agree on: an endpoint of one of
  the modules with its argument, which is also the cache key of a query (RTK Query keys
  a query by endpoint name and serialised argument).  The lemmas characterise, from the
  tag tables alone, which cached queries each mutation refreshes, and what goes on the
  wire for each call.
\<close>

datatype api_call =
    Product product_call
  | User user_call
  | Blog blog_call
  | Upload upload_call

fun api_request :: "api_call \<Rightarrow> request" where
  "api_request (Product c) = product_query c"
| "api_request (User c) = user_query c"
| "api_request (Blog c) = blog_query c"
| "api_request (Upload c) = upload_query c"

fun api_is_query :: "api_call \<Rightarrow> bool" where
  "api_is_query (Product c) = product_is_query c"
| "api_is_query (User c) = user_is_query c"
| "api_is_query (Blog c) = blog_is_query c"
| "api_is_query (Upload c) = False"

fun api_provides :: "api_call \<Rightarrow> tag list" where
  "api_provides (Product c) = product_provides c"
| "api_provides (User c) = user_provides c"
| "api_provides (Blog c) = blog_provides c"
| "api_provides (Upload c) = []"

fun api_invalidates :: "api_call \<Rightarrow> tag list" where
  "api_invalidates (Product c) = product_invalidates c"
| "api_invalidates (User c) = user_invalidates c"
| "api_invalidates (Blog c) = blog_invalidates c"
| "api_invalidates (Upload c) = upload_invalidates c"

text \<open>
  The awaited result of triggering a mutation: \<open>{error}\<close> or \<open>{data}\<close> (what
  \<open>await trigger(...)\<close> resolves to, and what \<open>.unwrap()\<close> throws or returns).
\<close>

datatype mutation_result = MutError | MutData json

text \<open>
  A successful mutation \<open>m\<close> marks a cached query \<open>q\<close> stale when a tag \<open>q\<close>
  provides is one \<open>m\<close> invalidates.
\<close>

definition refreshes :: "api_call \<Rightarrow> api_call \<Rightarrow> bool" where
  "refreshes m q \<longleftrightarrow> \<not> api_is_query m \<and> api_is_query q \<and>
     list_ex (\<lambda>t. t \<in> set (api_invalidates m)) (api_provides q)"

text \<open>The resource a path names: its first segment, after an optional leading slash.\<close>

definition path_resource :: "string \<Rightarrow> string" where
  "path_resource u = takeWhile (\<lambda>ch. ch \<noteq> CHR ''/'' \<and> ch \<noteq> CHR ''?'') (without_leading_slash u)"

definition call_resource :: "api_call \<Rightarrow> string" where
  "call_resource c = path_resource (url (api_request c))"

text \<open>
  The strings each endpoint interpolates into its path template (\<open>`/products/${id}`\<close>
  and the like), in the order they appear; they are inserted without encoding.
\<close>

fun call_params :: "api_call \<Rightarrow> string list" where
  "call_params (Product (deleteProduct i)) = [i]"
| "call_params (Product (singleProduct i)) = [i]"
| "call_params (Product (updateProduct i _)) = [i]"
| "call_params (Product (orderHistory st)) = [st]"
| "call_params (Product (orderStatus i _)) = [i]"
| "call_params (User (allUsers p l e)) = [p, l, e]"
| "call_params (User (userStatusUpdate i _)) = [i]"
| "call_params (Blog (deleteBlog i)) = [i]"
| "call_params (Blog (updateBlog i _)) = [i]"
| "call_params _ = []"

lemmas api_simps [model_simps] =
  product_query.simps user_query.simps blog_query.simps upload_query.simps
  product_is_query.simps user_is_query.simps blog_is_query.simps
  product_provides.simps user_provides.simps blog_provides.simps
  product_invalidates.simps user_invalidates.simps blog_invalidates.simps
  upload_invalidates.simps

section \<open>The tag tables\<close>

lemma queries_invalidate_nothing [model_simps]: "api_is_query c \<Longrightarrow> api_invalidates c = []"
  by (cases c rule: api_is_query.cases; simp; elim product_is_query.elims user_is_query.elims
      blog_is_query.elims; simp)

lemma mutations_provide_nothing [model_simps]: "\<not> api_is_query c \<Longrightarrow> api_provides c = []"
  by (cases c rule: api_is_query.cases; simp; elim product_is_query.elims user_is_query.elims
      blog_is_query.elims; simp)

section \<open>Which queries a mutation refreshes\<close>

lemma api_call_cases:
  obtains (addProduct) b where "c = Product (addProduct b)"
  | (allProducts) "c = Product allProducts"
  | (deleteProduct) i where "c = Product (deleteProduct i)"
  | (singleProduct) i where "c = Product (singleProduct i)"
  | (updateProduct) i b where "c = Product (updateProduct i b)"
  | (orderHistory) s where "c = Product (orderHistory s)"
  | (orderStatus) i s where "c = Product (orderStatus i s)"
  | (loginUser) d where "c = User (loginUser d)"
  | (allUsers) p l e where "c = User (allUsers p l e)"
  | (userStatusUpdate) i s where "c = User (userStatusUpdate i s)"
  | (blog) "c = Blog blog"
  | (addblog) d where "c = Blog (addblog d)"
  | (deleteBlog) i where "c = Blog (deleteBlog i)"
  | (updateBlog) i d where "c = Blog (updateBlog i d)"
  | (upload) b where "c = Upload (upload b)"
proof (cases c)
  case (Product p) then show ?thesis using that by (cases p) auto
next
  case (User u) then show ?thesis using that by (cases u) auto
next
  case (Blog b) then show ?thesis using that by (cases b) auto
next
  case (Upload u) then show ?thesis using that by (cases u) auto
qed

lemma call_resource_eqs [model_simps]:
  "call_resource (Product (addProduct b)) = ''products''"
  "call_resource (Product allProducts) = ''products''"
  "call_resource (Product (deleteProduct i)) = ''products''"
  "call_resource (Product (singleProduct i)) = ''products''"
  "call_resource (Product (updateProduct i b)) = ''products''"
  "call_resource (Product (orderHistory s)) = ''orders''"
  "call_resource (Product (orderStatus i j)) = ''orders''"
  "call_resource (User (loginUser d)) = ''auth''"
  "call_resource (User (allUsers p l e)) = ''users''"
  "call_resource (User (userStatusUpdate i j)) = ''users''"
  "call_resource (Blog blog) = ''blogs''"
  "call_resource (Blog (addblog d)) = ''blogs''"
  "call_resource (Blog (deleteBlog i)) = ''blogs''"
  "call_resource (Blog (updateBlog i d)) = ''blogs''"
  "call_resource (Upload (upload b)) = ''products''"
  by (simp_all add: call_resource_def path_resource_def without_leading_slash_def)

text \<open>
  C6: Tags never reach across resources.  For every mutation other than the login and
  the file upload, a query is refreshed by it exactly when the query's path names the
  same resource (the first path segment: products, orders, users, blogs).
\<close>

theorem refreshes_same_resource:
  assumes "\<not> api_is_query m" "m \<notin> range (User \<circ> loginUser)" "m \<notin> range Upload"
  shows "refreshes m q \<longleftrightarrow> api_is_query q \<and> call_resource m = call_resource q"
  using assms
  by (cases m rule: api_call_cases; cases q rule: api_call_cases)
     (simp_all add: refreshes_def call_resource_eqs)

text \<open>
  The login mutation invalidates the tag \<open>logIn\<close>, which no query provides: it
  refreshes nothing.
\<close>

lemma login_refreshes_nothing: "\<not> refreshes (User (loginUser d)) q"
  by (cases q rule: api_call_cases) (simp_all add: refreshes_def)

text \<open>
  The file upload, whose path is under \<open>products\<close>, refreshes the blog list and
  only the blog list: it invalidates the blog tag \<open>approveEvent\<close>.
\<close>

theorem upload_refreshes: "refreshes (Upload (upload b)) q \<longleftrightarrow> q = Blog blog"
  by (cases q rule: api_call_cases) (simp_all add: refreshes_def)

lemma api_url_shape:
  "url (api_request c) \<noteq> [] \<and> hd (url (api_request c)) \<noteq> CHR ''?'' \<and> take 2 (url (api_request c)) \<noteq> ''//''"
  by (cases c rule: api_call_cases) simp_all

text \<open>
  C26: The endpoints are typed consistently with HTTP: an endpoint is declared a query
  (cached, shared, refetched) exactly when its request is a GET without a body; every
  mutation uses another method.
\<close>

theorem queries_are_bodyless_gets:
  "api_is_query c \<longleftrightarrow> req_method (api_request c) = GET \<and> req_body (api_request c) = NoBody"
  by (cases c rule: api_call_cases) simp_all

section \<open>What goes on the wire\<close>

text \<open>
  The path of a request holds \<open>://\<close> exactly when one of its interpolated
  parameters does: no endpoint path is absolute by itself, and every fixed piece of
  text around a parameter keeps an occurrence from straddling it.
\<close>

lemma url_scheme_sep:
  "has_scheme_sep (url (api_request c)) \<longleftrightarrow> list_ex has_scheme_sep (call_params c)"
  by (cases c rule: api_call_cases) (simp_all add: has_scheme_sep_append)

lemma url_not_h: "hd (url (api_request c)) \<noteq> CHR ''h''"
  by (cases c rule: api_call_cases) simp_all

text \<open>
  C34: A request reaches the API server, \<open>http://104.236.194.254:5009/api/v1/\<close>, exactly
  when none of the strings interpolated into its path contains \<open>://\<close>.  Otherwise
  \<open>joinUrls\<close> takes the path for an absolute URL and the request leaves the API (for
  instance deleting a product whose id is \<open>x://y\<close> requests \<open>/products/x://y\<close> on
  the page's own origin).
\<close>

theorem requests_stay_under_base:
  "take 35 (full_url (fetch_request ck (api_request c))) = ''http://104.236.194.254:5009/api/v1/'' \<longleftrightarrow>
   \<not> list_ex has_scheme_sep (call_params c)"
proof (cases "list_ex has_scheme_sep (call_params c)")
  case True
  then have "full_url (fetch_request ck (api_request c)) = url (api_request c)"
    using api_url_shape [of c] url_scheme_sep [of c]
    by (simp add: fetch_request_def join_urls_def is_absolute_url_def base_url_facts)
  moreover have "take 35 (url (api_request c)) \<noteq> ''http://104.236.194.254:5009/api/v1/''"
    using api_url_shape [of c] url_not_h [of c]
    by (cases "url (api_request c)") auto
  ultimately show ?thesis using True by simp
next
  case False
  then have "full_url (fetch_request ck (api_request c)) =
             base_url @ CHR ''/'' # without_leading_slash (url (api_request c))"
    using api_url_shape [of c] url_scheme_sep [of c]
    by (simp add: fetch_request_def join_urls_def is_absolute_url_def base_url_facts)
  then show ?thesis using False by (simp add: base_url_def)
qed

text \<open>
  C27: The \<open>Authorization\<close> header of every request, the login included, is the
  \<open>accessToken\<close> cookie verbatim (no scheme prefix) when it is set and non-empty, and
  absent otherwise.
\<close>

theorem authorization_header:
  "map_of (rev (http_headers (fetch_request ck r))) ''Authorization'' =
     (case ck of None \<Rightarrow> None | Some t \<Rightarrow> if t = [] then None else Some t)"
  by (simp add: fetch_request_def prepare_headers_def headers_set_def split: option.split)

section \<open>Witnesses\<close>

theorem refreshes_same_resource_witness:
  "\<not> api_is_query (Product (deleteProduct ''7'')) \<and>
   Product (deleteProduct ''7'') \<notin> range (User \<circ> loginUser) \<and>
   Product (deleteProduct ''7'') \<notin> range Upload \<and>
   refreshes (Product (deleteProduct ''7'')) (Product (singleProduct ''9'')) \<and>
   \<not> refreshes (Product (deleteProduct ''7'')) (Product (orderHistory ''PENDING''))"
proof -
  have h: "\<not> api_is_query (Product (deleteProduct ''7''))"
    "Product (deleteProduct ''7'') \<notin> range (User \<circ> loginUser)"
    "Product (deleteProduct ''7'') \<notin> range Upload"
    by auto
  show ?thesis
    using h refreshes_same_resource [OF h, of "Product (singleProduct ''9'')"]
      refreshes_same_resource [OF h, of "Product (orderHistory ''PENDING'')"]
    by (simp add: call_resource_eqs)
qed

theorem requests_stay_under_base_witness:
  "take 35 (full_url (fetch_request None (api_request (Product (deleteProduct ''42''))))) =
     ''http://104.236.194.254:5009/api/v1/'' \<and>
   take 35 (full_url (fetch_request None (api_request (Product (deleteProduct ''x://y''))))) \<noteq>
     ''http://104.236.194.254:5009/api/v1/''"
  using requests_stay_under_base [of None "Product (deleteProduct ''42'')"]
    requests_stay_under_base [of None "Product (deleteProduct ''x://y'')"]
  by simp

end
