(* ===== verification/Cache.thy ===== *)
theory Cache
  imports Api "HOL-Library.AList"
begin

text \<open>
  The query cache of the API slice (RTK Query's store under \<open>reducerPath: 'baseApi'\<close>),
  modelled from the contract of spec section 4.1 and from what RTK Query does with this
  program's \<open>fetchBaseQuery\<close> and static tag lists where the two differ (a failed
  mutation), keyed by \<open>api_call\<close> and driven by
  the tag tables of \<open>Api\<close>.  A cache entry records the query's status, the last data
  received, its number of subscribed views and the tags it provided when it last
  settled.  The state also keeps the requests on the network (queries in flight and
  mutations awaiting their response) and the log of every request sent, in order, so
  that claims about "how many network calls" are claims about this log.
\<close>

datatype query_status = Pending | Fulfilled | Rejected

record entry =
  qstatus :: query_status
  qdata :: "json option"
  subscribers :: nat
  provided :: "tag list"

record cache =
  entries :: "(api_call \<times> entry) list"
  in_flight :: "api_call list"
  mutations :: "api_call list"
  sent :: "api_call list"
  received :: "api_call list"

definition cache_init :: cache where
  "cache_init = \<lparr>entries = [], in_flight = [], mutations = [], sent = [], received = []\<rparr>"

definition new_entry :: entry where
  "new_entry = \<lparr>qstatus = Pending, qdata = None, subscribers = 1, provided = []\<rparr>"

text \<open>
  A view subscribes to a query (a \<open>use...Query\<close> hook mounts).  A request is sent only
  when the key has no entry, or its entry is neither pending nor holding data: a second
  subscriber to a pending query shares its request, and one to a cached query reads
  the cache.
\<close>

definition subscribe :: "api_call \<Rightarrow> cache \<Rightarrow> cache" where
  "subscribe k c =
     (case map_of (entries c) k of
        None \<Rightarrow> c\<lparr>entries := AList.update k new_entry (entries c),
                  in_flight := in_flight c @ [k], sent := sent c @ [k]\<rparr>
      | Some e \<Rightarrow>
          if qstatus e = Pending \<or> qdata e \<noteq> None
          then c\<lparr>entries := AList.update k (e\<lparr>subscribers := Suc (subscribers e)\<rparr>) (entries c)\<rparr>
          else c\<lparr>entries := AList.update k
                    (e\<lparr>qstatus := Pending, subscribers := Suc (subscribers e)\<rparr>) (entries c),
                  in_flight := in_flight c @ [k], sent := sent c @ [k]\<rparr>)"

text \<open>A view unmounts.\<close>

definition unsubscribe :: "api_call \<Rightarrow> cache \<Rightarrow> cache" where
  "unsubscribe k c =
     (case map_of (entries c) k of
        None \<Rightarrow> c
      | Some e \<Rightarrow> c\<lparr>entries := AList.update k (e\<lparr>subscribers := subscribers e - 1\<rparr>) (entries c)\<rparr>)"

text \<open>
  An unused entry that is not waiting for a response is removed when its keep-alive
  time runs out.
\<close>

definition expire :: "api_call \<Rightarrow> cache \<Rightarrow> cache" where
  "expire k c =
     (case map_of (entries c) k of
        Some e \<Rightarrow> if subscribers e = 0 \<and> qstatus e \<noteq> Pending
                  then c\<lparr>entries := AList.delete k (entries c)\<rparr> else c
      | None \<Rightarrow> c)"

text \<open>
  The response to a query in flight: \<open>Some d\<close> is a 2xx response with body \<open>d\<close>,
  \<open>None\<close> an error.  Either way the entry settles and records the tags the endpoint
  provides; an error keeps the data of the last success.
\<close>

definition resolve :: "api_call \<Rightarrow> json option \<Rightarrow> cache \<Rightarrow> cache" where
  "resolve k r c =
     (if k \<notin> set (in_flight c) then c
      else
        let c' = c\<lparr>in_flight := remove1 k (in_flight c), received := received c @ [k]\<rparr> in
        case map_of (entries c) k of
          None \<Rightarrow> c'
        | Some e \<Rightarrow>
            c'\<lparr>entries := AList.update k
                 (case r of
                    Some d \<Rightarrow> e\<lparr>qstatus := Fulfilled, qdata := Some d, provided := api_provides k\<rparr>
                  | None \<Rightarrow> e\<lparr>qstatus := Rejected, provided := api_provides k\<rparr>) (entries c)\<rparr>)"

text \<open>
  Tag invalidation.  An entry is hit when one of its provided tags is invalidated.  A hit
  entry with subscribers that is not already waiting is refetched (marked pending, its
  request sent); a hit entry without subscribers is dropped unless a response for it is
  still due; every other entry is kept as it is.  Requests go out in the order of the
  entries.
\<close>

definition hit :: "tag list \<Rightarrow> entry \<Rightarrow> bool" where
  "hit ts e \<longleftrightarrow> list_ex (\<lambda>t. t \<in> set ts) (provided e)"

definition refetched :: "tag list \<Rightarrow> entry \<Rightarrow> bool" where
  "refetched ts e \<longleftrightarrow> hit ts e \<and> 0 < subscribers e \<and> qstatus e \<noteq> Pending"

definition dropped :: "tag list \<Rightarrow> entry \<Rightarrow> bool" where
  "dropped ts e \<longleftrightarrow> hit ts e \<and> subscribers e = 0 \<and> qstatus e \<noteq> Pending"

definition refetch_keys :: "tag list \<Rightarrow> (api_call \<times> entry) list \<Rightarrow> api_call list" where
  "refetch_keys ts es = map fst (filter (\<lambda>ke. refetched ts (snd ke)) es)"

definition invalidate_entries :: "tag list \<Rightarrow> (api_call \<times> entry) list \<Rightarrow> (api_call \<times> entry) list" where
  "invalidate_entries ts es =
     map (\<lambda>(k, e). (k, if refetched ts e then e\<lparr>qstatus := Pending\<rparr> else e))
       (filter (\<lambda>ke. \<not> dropped ts (snd ke)) es)"

definition invalidate :: "tag list \<Rightarrow> cache \<Rightarrow> cache" where
  "invalidate ts c =
     c\<lparr>entries := invalidate_entries ts (entries c),
       in_flight := in_flight c @ refetch_keys ts (entries c),
       sent := sent c @ refetch_keys ts (entries c)\<rparr>"

text \<open>
  How a request ends.  \<open>fetchBaseQuery\<close> (\<open>src/src/Redux/Api/baseApi.ts\<close>) never
  throws: a response whose status is 2xx and whose body parses becomes \<open>{data}\<close>, any
  other status, an unparsable body and a network failure become \<open>{error}\<close>.  RTK's
  mutation thunk fulfils on \<open>{data}\<close> and rejects with the value on \<open>{error}\<close>; a
  plain rejection only comes from a base query that throws.
\<close>

datatype http_answer = Response nat "json option" | FetchFailed

datatype mutation_end = MutFulfilled | MutRejectedWithValue | MutRejected

definition base_query_end :: "http_answer \<Rightarrow> mutation_end" where
  "base_query_end a =
     (case a of
        Response st (Some _) \<Rightarrow> if 200 \<le> st \<and> st < 300 then MutFulfilled else MutRejectedWithValue
      | Response _ None \<Rightarrow> MutRejectedWithValue
      | FetchFailed \<Rightarrow> MutRejectedWithValue)"

text \<open>
  A view triggers a mutation: its request is sent.  When it ends, RTK's invalidation
  middleware applies the mutation's \<open>invalidatesTags\<close> on a fulfilled action and on a
  rejection with a value alike (the tag lists of this program are static, so they do
  not depend on the outcome); only a plain rejection leaves the cache as it was.
\<close>

definition trigger :: "api_call \<Rightarrow> cache \<Rightarrow> cache" where
  "trigger m c = c\<lparr>mutations := mutations c @ [m], sent := sent c @ [m]\<rparr>"

definition settle :: "api_call \<Rightarrow> mutation_end \<Rightarrow> cache \<Rightarrow> cache" where
  "settle m r c =
     (if m \<notin> set (mutations c) then c
      else
        let c' = c\<lparr>mutations := remove1 m (mutations c), received := received c @ [m]\<rparr>
        in if r \<noteq> MutRejected then invalidate (api_invalidates m) c' else c')"

section \<open>The cache as a machine\<close>

inductive cache_step :: "cache \<Rightarrow> cache \<Rightarrow> bool" where
  step_subscribe: "api_is_query k \<Longrightarrow> cache_step c (subscribe k c)"
| step_unsubscribe: "cache_step c (unsubscribe k c)"
| step_expire: "cache_step c (expire k c)"
| step_resolve: "k \<in> set (in_flight c) \<Longrightarrow> cache_step c (resolve k r c)"
| step_trigger: "\<not> api_is_query m \<Longrightarrow> cache_step c (trigger m c)"
| step_settle: "m \<in> set (mutations c) \<Longrightarrow> cache_step c (settle m (base_query_end a) c)"

inductive reachable :: "cache \<Rightarrow> bool" where
  reach_init: "reachable cache_init"
| reach_step: "reachable c \<Longrightarrow> cache_step c c' \<Longrightarrow> reachable c'"

definition pending_keys :: "(api_call \<times> entry) list \<Rightarrow> api_call set" where
  "pending_keys es = {k. \<exists>e. map_of es k = Some e \<and> qstatus e = Pending}"

text \<open>
  The structural invariant: one entry per key, one request in flight per key, and the
  keys in flight are exactly the pending entries.
\<close>

definition cache_inv :: "cache \<Rightarrow> bool" where
  "cache_inv c \<longleftrightarrow> distinct (map fst (entries c)) \<and> distinct (in_flight c) \<and>
     set (in_flight c) = pending_keys (entries c)"

text \<open>
  The network invariant: every request sent has been answered or is still on the
  network, mutations and queries are kept apart, and an entry only ever records tags its
  endpoint provides.
\<close>

definition log_inv :: "cache \<Rightarrow> bool" where
  "log_inv c \<longleftrightarrow>
     (\<forall>k. count_list (sent c) k =
            count_list (received c) k + count_list (in_flight c) k + count_list (mutations c) k) \<and>
     (\<forall>m \<in> set (mutations c). \<not> api_is_query m) \<and>
     (\<forall>k e. map_of (entries c) k = Some e \<longrightarrow> api_is_query k \<and> set (provided e) \<subseteq> set (api_provides k))"

section \<open>The structural invariant\<close>


lemma pending_keys_update:
  "pending_keys (AList.update k e es) =
     (if qstatus e = Pending then insert k (pending_keys es) else pending_keys es - {k})"
  by (auto simp: pending_keys_def update_conv')

lemma pending_keys_delete: "pending_keys (AList.delete k es) = pending_keys es - {k}"
  by (auto simp: pending_keys_def delete_conv')

lemma pending_keys_iff: "k \<in> pending_keys es \<longleftrightarrow> (\<exists>e. map_of es k = Some e \<and> qstatus e = Pending)"
  by (simp add: pending_keys_def)

lemma map_of_invalidate_entries:
  "distinct (map fst es) \<Longrightarrow>
   map_of (invalidate_entries ts es) k =
     (case map_of es k of
        None \<Rightarrow> None
      | Some e \<Rightarrow> if dropped ts e then None
                  else Some (if refetched ts e then e\<lparr>qstatus := Pending\<rparr> else e))"
proof (induction es arbitrary: k)
  case Nil
  then show ?case by (simp add: invalidate_entries_def)
next
  case (Cons ke es)
  obtain k' e' where ke: "ke = (k', e')" by (cases ke)
  have nk: "map_of es k' = None" and d: "distinct (map fst es)"
    using Cons.prems ke by (simp_all add: map_of_eq_None_iff)
  have ie: "invalidate_entries ts ((k', e') # es) =
     (if dropped ts e' then invalidate_entries ts es
      else (k', if refetched ts e' then e'\<lparr>qstatus := Pending\<rparr> else e') # invalidate_entries ts es)"
    by (simp add: invalidate_entries_def)
  show ?case
  proof (cases "k = k'")
    case True
    have "map_of (invalidate_entries ts es) k' = None"
      using Cons.IH[OF d, of k'] nk by simp
    with True ke ie show ?thesis by simp
  next
    case False
    with Cons.IH[OF d] ke ie show ?thesis by simp
  qed
qed

lemma keys_invalidate_entries:
  "map fst (invalidate_entries ts es) = map fst (filter (\<lambda>ke. \<not> dropped ts (snd ke)) es)"
  by (induction es) (auto simp: invalidate_entries_def)

lemma distinct_invalidate_entries:
  "distinct (map fst es) \<Longrightarrow> distinct (map fst (invalidate_entries ts es))"
  by (simp add: keys_invalidate_entries distinct_map_filter)

lemma distinct_refetch_keys:
  "distinct (map fst es) \<Longrightarrow> distinct (refetch_keys ts es)"
  by (simp add: refetch_keys_def distinct_map_filter)

lemma set_refetch_keys:
  "distinct (map fst es) \<Longrightarrow>
   set (refetch_keys ts es) = {k. \<exists>e. map_of es k = Some e \<and> refetched ts e}"
  by (force simp: refetch_keys_def dest: map_of_SomeD intro: map_of_is_SomeI rev_image_eqI)

lemma pending_keys_invalidate_entries:
  assumes "distinct (map fst es)"
  shows "pending_keys (invalidate_entries ts es) = pending_keys es \<union> set (refetch_keys ts es)"
proof (rule set_eqI)
  fix k
  show "k \<in> pending_keys (invalidate_entries ts es) \<longleftrightarrow> k \<in> pending_keys es \<union> set (refetch_keys ts es)"
    using assms
    by (cases "map_of es k")
       (auto simp: pending_keys_iff map_of_invalidate_entries set_refetch_keys dropped_def refetched_def
         simp del: map_of_eq_Some_iff)
qed

lemma refetch_keys_not_pending:
  "distinct (map fst es) \<Longrightarrow> set (refetch_keys ts es) \<inter> pending_keys es = {}"
  by (auto simp: set_refetch_keys pending_keys_iff refetched_def)


lemma inv_init: "cache_inv cache_init"
  by (simp add: cache_inv_def cache_init_def pending_keys_def)

lemma pending_keys_update_same:
  "map_of es k = Some e \<Longrightarrow> qstatus e' = qstatus e \<Longrightarrow> pending_keys (AList.update k e' es) = pending_keys es"
  by (auto simp: pending_keys_update pending_keys_iff)

lemma inv_subscribe:
  assumes inv: "cache_inv c"
  shows "cache_inv (subscribe k c)"
proof (cases "map_of (entries c) k")
  case None
  then have "k \<notin> set (in_flight c)"
    using inv by (simp add: cache_inv_def pending_keys_iff)
  with None inv show ?thesis
    by (simp add: cache_inv_def subscribe_def distinct_update pending_keys_update new_entry_def)
next
  case (Some e)
  show ?thesis
  proof (cases "qstatus e = Pending \<or> qdata e \<noteq> None")
    case True
    with Some inv show ?thesis
      by (simp add: cache_inv_def subscribe_def distinct_update pending_keys_update_same)
  next
    case False
    then have "k \<notin> set (in_flight c)"
      using inv Some by (simp add: cache_inv_def pending_keys_iff)
    with Some False inv show ?thesis
      by (simp add: cache_inv_def subscribe_def distinct_update pending_keys_update)
  qed
qed

lemma inv_unsubscribe:
  assumes inv: "cache_inv c"
  shows "cache_inv (unsubscribe k c)"
proof (cases "map_of (entries c) k")
  case None
  with inv show ?thesis by (simp add: unsubscribe_def)
next
  case (Some e)
  with inv show ?thesis
    by (simp add: cache_inv_def unsubscribe_def distinct_update pending_keys_update_same)
qed

lemma inv_expire: "cache_inv c \<Longrightarrow> cache_inv (expire k c)"
  by (auto simp: cache_inv_def expire_def distinct_delete pending_keys_delete
      pending_keys_iff split: option.splits)

lemma inv_resolve: "cache_inv c \<Longrightarrow> cache_inv (resolve k r c)"
  by (auto simp: cache_inv_def resolve_def distinct_update pending_keys_update Let_def
      pending_keys_iff split: option.splits)

lemma inv_invalidate: "cache_inv c \<Longrightarrow> cache_inv (invalidate ts c)"
  using refetch_keys_not_pending[of "entries c" ts]
  by (auto simp: cache_inv_def invalidate_def distinct_invalidate_entries distinct_refetch_keys
      pending_keys_invalidate_entries)

lemma inv_trigger: "cache_inv c \<Longrightarrow> cache_inv (trigger m c)"
  by (simp add: cache_inv_def trigger_def)

lemma inv_settle: "cache_inv c \<Longrightarrow> cache_inv (settle m r c)"
proof -
  assume inv: "cache_inv c"
  then have "cache_inv (c\<lparr>mutations := remove1 m (mutations c), received := received c @ [m]\<rparr>)"
    by (simp add: cache_inv_def)
  with inv show ?thesis by (simp add: settle_def Let_def inv_invalidate)
qed

lemma cache_step_inv: "cache_step c c' \<Longrightarrow> cache_inv c \<Longrightarrow> cache_inv c'"
  by (induction rule: cache_step.induct)
     (simp_all add: inv_subscribe inv_unsubscribe inv_expire inv_resolve inv_trigger inv_settle)

lemma reachable_inv: "reachable c \<Longrightarrow> cache_inv c"
  by (induction rule: reachable.induct) (auto simp: inv_init cache_step_inv)



section \<open>The network invariant\<close>

lemma count_refetch_keys:
  "distinct (map fst es) \<Longrightarrow>
   count_list (refetch_keys ts es) k = (if \<exists>e. map_of es k = Some e \<and> refetched ts e then 1 else 0)"
  by (simp add: distinct_count_list distinct_refetch_keys set_refetch_keys)

lemma log_init: "log_inv cache_init"
  by (simp add: log_inv_def cache_init_def)

lemma log_subscribe: "api_is_query k \<Longrightarrow> log_inv c \<Longrightarrow> log_inv (subscribe k c)"
  by (auto simp: log_inv_def subscribe_def update_conv' new_entry_def split: option.splits)

lemma log_unsubscribe: "log_inv c \<Longrightarrow> log_inv (unsubscribe k c)"
  by (auto simp: log_inv_def unsubscribe_def update_conv' split: option.splits)

lemma log_expire: "log_inv c \<Longrightarrow> log_inv (expire k c)"
  by (auto simp: log_inv_def expire_def delete_conv' split: option.splits)

lemma log_resolve: "log_inv c \<Longrightarrow> log_inv (resolve k r c)"
proof -
  assume inv: "log_inv c"
  show ?thesis
  proof (cases "k \<in> set (in_flight c)")
    case False
    with inv show ?thesis by (simp add: resolve_def)
  next
    case True
    then have pos: "0 < count_list (in_flight c) k"
      using count_list_0_iff[of "in_flight c" k] by auto
    have counts: "\<forall>k'. count_list (sent c) k' =
        count_list (received c @ [k]) k' + count_list (remove1 k (in_flight c)) k' +
        count_list (mutations c) k'"
      using inv pos by (auto simp: log_inv_def)
    with True inv show ?thesis
      by (auto simp: log_inv_def resolve_def Let_def update_conv' split: option.splits)
  qed
qed

lemma log_trigger: "\<not> api_is_query m \<Longrightarrow> log_inv c \<Longrightarrow> log_inv (trigger m c)"
  by (auto simp: log_inv_def trigger_def)

lemma log_invalidate:
  assumes inv: "log_inv c" and d: "distinct (map fst (entries c))"
  shows "log_inv (invalidate ts c)"
proof -
  have ty: "\<And>k e. map_of (entries c) k = Some e \<Longrightarrow>
      api_is_query k \<and> set (provided e) \<subseteq> set (api_provides k)"
    using inv by (simp add: log_inv_def)
  have "map_of (entries (invalidate ts c)) k = Some e \<Longrightarrow>
        api_is_query k \<and> set (provided e) \<subseteq> set (api_provides k)" for k e
    using d ty[of k]
    by (cases "map_of (entries c) k")
       (auto simp: invalidate_def map_of_invalidate_entries split: if_splits
        simp del: map_of_eq_Some_iff)
  with inv show ?thesis
    by (auto simp: log_inv_def invalidate_def)
qed

lemma log_settle:
  assumes inv: "log_inv c" and d: "distinct (map fst (entries c))"
  shows "log_inv (settle m r c)"
proof (cases "m \<in> set (mutations c)")
  case False
  with inv show ?thesis by (simp add: settle_def)
next
  case True
  let ?c' = "c\<lparr>mutations := remove1 m (mutations c), received := received c @ [m]\<rparr>"
  have pos: "0 < count_list (mutations c) m"
    using True count_list_0_iff[of "mutations c" m] by auto
  have inv': "log_inv ?c'"
    using inv pos by (auto simp: log_inv_def)
  have "log_inv (invalidate (api_invalidates m) ?c')"
    using inv' d by (intro log_invalidate) simp_all
  with True inv' show ?thesis by (simp add: settle_def Let_def)
qed

lemma cache_step_log:
  "cache_step c c' \<Longrightarrow> log_inv c \<Longrightarrow> cache_inv c \<Longrightarrow> log_inv c'"
  by (induction rule: cache_step.induct)
     (simp_all add: log_subscribe log_unsubscribe log_expire log_resolve log_trigger log_settle
      cache_inv_def)

lemma reachable_invs: "reachable c \<Longrightarrow> cache_inv c \<and> log_inv c"
  by (induction rule: reachable.induct)
     (auto simp: inv_init log_init cache_step_inv cache_step_log)

text \<open>
  Reachability by the single operations, for building concrete runs.
\<close>

lemma reach_subscribe: "reachable c \<Longrightarrow> api_is_query k \<Longrightarrow> reachable (subscribe k c)"
  by (rule reach_step, assumption, rule step_subscribe)

lemma reach_resolve: "reachable c \<Longrightarrow> k \<in> set (in_flight c) \<Longrightarrow> reachable (resolve k r c)"
  by (rule reach_step, assumption, rule step_resolve)

lemma reach_trigger: "reachable c \<Longrightarrow> \<not> api_is_query m \<Longrightarrow> reachable (trigger m c)"
  by (rule reach_step, assumption, rule step_trigger)

section \<open>The tags an entry provides\<close>

text \<open>
  An entry that has settled at least once (it is not pending, or it holds data) records
  exactly the tags its endpoint's \<open>providesTags\<close> gives: \<open>resolve\<close> writes them,
  and no other operation changes them.
\<close>

definition tags_inv :: "cache \<Rightarrow> bool" where
  "tags_inv c \<longleftrightarrow>
     (\<forall>k e. map_of (entries c) k = Some e \<longrightarrow> qstatus e \<noteq> Pending \<or> qdata e \<noteq> None \<longrightarrow>
            provided e = api_provides k)"

lemma tags_invalidate:
  assumes inv: "tags_inv c" and d: "distinct (map fst (entries c))"
  shows "tags_inv (invalidate ts c)"
proof -
  have "provided e = api_provides k"
    if "map_of (entries (invalidate ts c)) k = Some e" "qstatus e \<noteq> Pending \<or> qdata e \<noteq> None" for k e
    using that d inv
    by (cases "map_of (entries c) k")
       (auto simp: tags_inv_def invalidate_def map_of_invalidate_entries split: if_splits
        simp del: map_of_eq_Some_iff)
  then show ?thesis by (simp add: tags_inv_def)
qed

lemma cache_step_tags:
  assumes "cache_step c c'" and "tags_inv c" and "cache_inv c"
  shows "tags_inv c'"
  using assms
proof (induction rule: cache_step.induct)
  case (step_settle m c a)
  then show ?case
    using tags_invalidate [of "c\<lparr>mutations := remove1 m (mutations c), received := received c @ [m]\<rparr>"]
    by (auto simp: settle_def Let_def tags_inv_def cache_inv_def)
qed (auto simp: tags_inv_def subscribe_def unsubscribe_def expire_def resolve_def trigger_def
       Let_def update_conv' delete_conv' new_entry_def split: option.splits if_splits)

lemma reachable_provided:
  assumes "reachable c" and "map_of (entries c) k = Some e" and "qstatus e \<noteq> Pending \<or> qdata e \<noteq> None"
  shows "provided e = api_provides k"
proof -
  have "tags_inv c"
    using assms(1)
  proof (induction rule: reachable.induct)
    case reach_init
    then show ?case by (simp add: tags_inv_def cache_init_def)
  next
    case (reach_step c c')
    then show ?case using cache_step_tags reachable_inv by blast
  qed
  with assms(2,3) show ?thesis by (simp add: tags_inv_def)
qed

section \<open>Requests per query key\<close>

text \<open>
  C1: However views subscribe and unsubscribe, responses arrive and mutations settle, at
  most one request per query key is ever unanswered: the requests sent for a query never
  outnumber the responses received for it by more than one.
\<close>

theorem one_request_per_key:
  assumes "reachable c" and "api_is_query k"
  shows "count_list (sent c) k \<le> count_list (received c) k + 1"
proof -
  from reachable_invs[OF assms(1)] have ci: "cache_inv c" and li: "log_inv c" by auto
  from li assms(2) have "count_list (mutations c) k = 0"
    by (auto simp: log_inv_def count_list_0_iff)
  moreover from ci have "count_list (in_flight c) k \<le> 1"
    by (simp add: cache_inv_def distinct_count_list)
  ultimately show ?thesis
    using li by (simp add: log_inv_def)
qed



section \<open>Settling a mutation\<close>

lemma trigger_simps [simp]:
  "entries (trigger m c) = entries c" "sent (trigger m c) = sent c @ [m]"
  "m \<in> set (mutations (trigger m c))"
  by (simp_all add: trigger_def)

text \<open>
  After a successful mutation, each cached entry hit by its tags is dropped when no
  view uses it and no response for it is due, refetched (pending) when a view uses it
  and it is not already waiting, and kept otherwise; entries not hit are kept.
\<close>

lemma settle_success_entries:
  assumes "distinct (map fst (entries c))" and "m \<in> set (mutations c)"
  shows "map_of (entries (settle m MutFulfilled c)) k =
     (case map_of (entries c) k of
        None \<Rightarrow> None
      | Some e \<Rightarrow> if dropped (api_invalidates m) e then None
                  else Some (if refetched (api_invalidates m) e then e\<lparr>qstatus := Pending\<rparr> else e))"
  using assms by (simp add: settle_def Let_def invalidate_def map_of_invalidate_entries)

text \<open>
  C2: A successful mutation sends exactly one new request for each cached query whose
  provided tags meet the mutation's invalidated tags and that has a subscribed view and
  is not already waiting, and no request for any other key.
\<close>

theorem settle_refetches_once:
  assumes "distinct (map fst (entries c))" and "m \<in> set (mutations c)"
  shows "count_list (sent (settle m MutFulfilled c)) k =
     count_list (sent c) k +
       (if \<exists>e. map_of (entries c) k = Some e \<and> refetched (api_invalidates m) e then 1 else 0)"
  using assms by (simp add: settle_def Let_def invalidate_def count_refetch_keys)

lemma base_query_never_throws: "base_query_end a \<noteq> MutRejected"
  by (simp add: base_query_end_def split: http_answer.split option.split)

text \<open>
  C3: A mutation whose request fails (an error status, an unparsable body or a network
  failure) refetches, like a successful one, each cached query its tags hit that a
  view uses and that is not already waiting: the cache does not leave a failed
  mutation without effect, as spec section 4.1 says it does.
\<close>

theorem failed_mutation_invalidates:
  assumes "distinct (map fst (entries c))" and "m \<in> set (mutations c)"
  shows "count_list (sent (settle m (base_query_end a) c)) k =
     count_list (sent c) k +
       (if \<exists>e. map_of (entries c) k = Some e \<and> refetched (api_invalidates m) e then 1 else 0)"
  using assms base_query_never_throws [of a]
  by (simp add: settle_def Let_def invalidate_def count_refetch_keys)

text \<open>
  A view subscribing to a query whose request is in flight shares that request.
\<close>

lemma subscribe_pending_shares:
  assumes "map_of (entries c) k = Some e" and "qstatus e = Pending"
  shows "sent (subscribe k c) = sent c \<and> in_flight (subscribe k c) = in_flight c"
  using assms by (simp add: subscribe_def)

text \<open>
  Two views subscribing to the same query (same endpoint and argument) before its
  response arrives cause one network request, and the entry counts both subscribers.
\<close>

theorem subscribe_twice_one_request:
  assumes "map_of (entries c) k = None"
  shows "count_list (sent (subscribe k (subscribe k c))) k = Suc (count_list (sent c) k) \<and>
         map_of (entries (subscribe k (subscribe k c))) k = Some (new_entry\<lparr>subscribers := 2\<rparr>)"
  using assms by (simp add: subscribe_def update_conv' new_entry_def)

section \<open>Witnesses\<close>

theorem one_request_per_key_witness:
  "reachable (subscribe (Product allProducts) (subscribe (Product allProducts) cache_init)) \<and>
   count_list (sent (subscribe (Product allProducts) (subscribe (Product allProducts) cache_init)))
     (Product allProducts) = 1 \<and>
   count_list (sent (subscribe (Product allProducts) (subscribe (Product allProducts) cache_init)))
     (Product allProducts) \<le>
   count_list (received (subscribe (Product allProducts) (subscribe (Product allProducts) cache_init)))
     (Product allProducts) + 1"
proof -
  have r0: "reachable (subscribe (Product allProducts) cache_init)"
    by (rule reach_step [OF reach_init]) (rule step_subscribe, simp)
  have r: "reachable (subscribe (Product allProducts) (subscribe (Product allProducts) cache_init))"
    by (rule reach_step [OF r0]) (rule step_subscribe, simp)
  show ?thesis
    using r one_request_per_key [OF r, of "Product allProducts"]
    by (simp add: subscribe_def cache_init_def update_conv' new_entry_def)
qed

theorem settle_refetches_once_witness:
  "distinct (map fst (entries
      \<lparr>entries = [(Product allProducts, \<lparr>qstatus = Fulfilled, qdata = Some JNull, subscribers = 1,
                    provided = [AllProducts]\<rparr>)],
       in_flight = [], mutations = [Product (addProduct NoBody)],
       sent = [Product allProducts, Product (addProduct NoBody)], received = [Product allProducts]\<rparr>)) \<and>
   count_list (sent (settle (Product (addProduct NoBody)) MutFulfilled
      \<lparr>entries = [(Product allProducts, \<lparr>qstatus = Fulfilled, qdata = Some JNull, subscribers = 1,
                    provided = [AllProducts]\<rparr>)],
       in_flight = [], mutations = [Product (addProduct NoBody)],
       sent = [Product allProducts, Product (addProduct NoBody)], received = [Product allProducts]\<rparr>))
     (Product allProducts) = 2"
  using settle_refetches_once [of
      "\<lparr>entries = [(Product allProducts, \<lparr>qstatus = Fulfilled, qdata = Some JNull, subscribers = 1,
                    provided = [AllProducts]\<rparr>)],
       in_flight = [], mutations = [Product (addProduct NoBody)],
       sent = [Product allProducts, Product (addProduct NoBody)], received = [Product allProducts]\<rparr>"
      "Product (addProduct NoBody)" "Product allProducts"]
  by (simp add: refetched_def hit_def)

theorem failed_mutation_invalidates_witness:
  "count_list (sent (settle (Product (addProduct NoBody)) (base_query_end (Response 500 (Some JNull)))
      \<lparr>entries = [(Product allProducts, \<lparr>qstatus = Fulfilled, qdata = Some JNull, subscribers = 1,
                    provided = [AllProducts]\<rparr>)],
       in_flight = [], mutations = [Product (addProduct NoBody)],
       sent = [Product allProducts, Product (addProduct NoBody)], received = [Product allProducts]\<rparr>))
     (Product allProducts) = 2"
  using failed_mutation_invalidates [of
      "\<lparr>entries = [(Product allProducts, \<lparr>qstatus = Fulfilled, qdata = Some JNull, subscribers = 1,
                    provided = [AllProducts]\<rparr>)],
       in_flight = [], mutations = [Product (addProduct NoBody)],
       sent = [Product allProducts, Product (addProduct NoBody)], received = [Product allProducts]\<rparr>"
      "Product (addProduct NoBody)" "Response 500 (Some JNull)" "Product allProducts"]
  by (simp add: refetched_def hit_def)

theorem subscribe_twice_one_request_witness:
  "count_list (sent (subscribe (Product allProducts) (subscribe (Product allProducts) cache_init)))
     (Product allProducts) = 1"
  using subscribe_twice_one_request [of cache_init "Product allProducts"]
  by (simp add: cache_init_def)

end
