(* ===== verification/Navbar.thy ===== *)
theory Navbar
  imports Cache
begin

text \<open>
  The sidebar, \<open>src/src/components/Navbar/NavbarSlider.tsx\<close>: the fixed
  \<open>navigation\<close> table, the list of open dropdowns and \<open>toggleDropdown\<close>, what
  \<open>renderNavItem\<close> shows for the current path, the sidebar open or collapsed, and
  \<open>handleLogOut\<close>.  Logout acts on
  the client session: the Redux auth slice (whose \<open>logOut\<close> reducer is not under
  \<open>src/\<close>; modelled as clearing the signed-in name), the \<open>accessToken\<close> cookie, the
  router location, and the API cache of \<open>Cache\<close>, which the handler does not touch.
  Icons and styling are not modelled.
\<close>

section \<open>Navigation table and dropdowns\<close>

text \<open>\<open>NavItem\<close>: label, optional route, optional sub-items (the icon is left out).\<close>

datatype nav_item = NavItem string "string option" "nav_item list option"

definition navigation :: "nav_item list" where
  "navigation =
     [NavItem ''Dashboard'' (Some ''/'') None,
      NavItem ''E-commerce'' None (Some
        [NavItem ''Products'' (Some ''/all-products'') None,
         NavItem ''Add Product'' (Some ''/add-product'') None,
         NavItem ''Order History'' (Some ''/order-history'') None]),
      NavItem ''Users'' (Some ''/users'') None,
      NavItem ''Blog'' (Some ''/add-blog'') None]"

text \<open>\<open>toggleDropdown(label)\<close>: remove the label if open, append it otherwise.\<close>

definition toggle_dropdown :: "string \<Rightarrow> string list \<Rightarrow> string list" where
  "toggle_dropdown l prev = (if l \<in> set prev then filter (\<lambda>x. x \<noteq> l) prev else prev @ [l])"

section \<open>Rendering\<close>

text \<open>
  What \<open>renderNavItem\<close> shows: a link (its \<open>href\<close>, its label when the sidebar is
  open, whether it is highlighted), or a dropdown button (its label when open, whether
  the dropdown is open, and the sub-item links listed only when both the dropdown and
  the sidebar are open).  \<open>path === item.route\<close> is false for an item without route.
\<close>

datatype rendered =
    RLink string "string option" bool
  | RDropdown "string option" bool "rendered list"

definition href :: "string option \<Rightarrow> string" where
  "href r = (case r of None \<Rightarrow> ''#'' | Some s \<Rightarrow> s)"

fun render_sub_item :: "string \<Rightarrow> nav_item \<Rightarrow> rendered" where
  "render_sub_item path (NavItem l r _) = RLink (href r) (Some l) (r = Some path)"

fun render_nav_item :: "string \<Rightarrow> bool \<Rightarrow> string list \<Rightarrow> nav_item \<Rightarrow> rendered" where
  "render_nav_item path is_open opened (NavItem l r subs) =
     (case subs of
        Some items \<Rightarrow>
          RDropdown (if is_open then Some l else None) (l \<in> set opened)
            (if l \<in> set opened \<and> is_open then map (render_sub_item path) items else [])
      | None \<Rightarrow> RLink (href r) (if is_open then Some l else None) (r = Some path))"

definition render_navigation :: "string \<Rightarrow> bool \<Rightarrow> string list \<Rightarrow> rendered list" where
  "render_navigation path is_open opened = map (render_nav_item path is_open opened) navigation"

fun highlighted :: "rendered \<Rightarrow> string list" where
  "highlighted (RLink h _ act) = (if act then [h] else [])"
| "highlighted (RDropdown _ _ subs) = concat (map highlighted subs)"

section \<open>Logout\<close>

record session =
  auth_name :: "string option"
  access_token :: "string option"
  location :: string
  api_cache :: cache

text \<open>
  \<open>logOut\<close> is an action of the auth slice (\<open>@/Redux/ReduxFunction\<close>, not under
  \<open>src/\<close>), so it is modelled from spec section 4.3: it clears the signed-in user and
  flushes the cached query state.  Whether the store really resets the API slice on
  this action is not visible in \<open>src/\<close>: \<open>handleLogOut\<close> itself never dispatches
  \<open>baseApi.util.resetApiState()\<close>.
\<close>

definition log_out :: "session \<Rightarrow> session" where
  "log_out s = s\<lparr>auth_name := None, api_cache := cache_init\<rparr>"

text \<open>\<open>handleLogOut\<close>: \<open>dispatch(logOut())\<close>, \<open>Cookies.remove("accessToken")\<close>,
  \<open>route.push("/login")\<close>, in this order.\<close>

definition handle_log_out :: "session \<Rightarrow> session" where
  "handle_log_out s = (let s1 = log_out s; s2 = s1\<lparr>access_token := None\<rparr> in s2\<lparr>location := ''/login''\<rparr>)"

text \<open>The greeting shown above the logout button (\<open>name &&\<close>).\<close>

definition greeting :: "session \<Rightarrow> string option" where
  "greeting s = (case auth_name s of None \<Rightarrow> None | Some n \<Rightarrow> if n = [] then None else Some (''Hello, '' @ n))"



section \<open>The sidebar\<close>

text \<open>
  What the sidebar renders for \<open>isOpen\<close> (a prop of the parent) and the open
  dropdowns: the toggle button's icon, the width, the logo (only when open), the
  navigation, the greeting (in the DOM when a name is set, hidden by its class when the
  sidebar is closed) and the logout button's label (only when open).
\<close>

datatype toggle_icon = CloseIcon | MenuIcon

record sidebar_view =
  sb_icon :: toggle_icon
  sb_width :: nat
  sb_logo :: bool
  sb_items :: "rendered list"
  sb_greeting :: "(string \<times> bool) option"
  sb_logout_label :: bool

definition render_sidebar :: "bool \<Rightarrow> string list \<Rightarrow> session \<Rightarrow> sidebar_view" where
  "render_sidebar is_open opened s =
     \<lparr>sb_icon = (if is_open then CloseIcon else MenuIcon), sb_width = (if is_open then 250 else 80),
      sb_logo = is_open, sb_items = render_navigation (location s) is_open opened,
      sb_greeting = map_option (\<lambda>g. (g, is_open)) (greeting s), sb_logout_label = is_open\<rparr>"

text \<open>The text a user sees in a rendered sidebar.\<close>

fun rendered_labels :: "rendered \<Rightarrow> string list" where
  "rendered_labels (RLink _ l _) = (case l of None \<Rightarrow> [] | Some x \<Rightarrow> [x])"
| "rendered_labels (RDropdown l _ subs) =
     (case l of None \<Rightarrow> [] | Some x \<Rightarrow> [x]) @ concat (map rendered_labels subs)"

definition visible_text :: "sidebar_view \<Rightarrow> string list" where
  "visible_text v =
     concat (map rendered_labels (sb_items v)) @
     (case sb_greeting v of Some (g, True) \<Rightarrow> [g] | _ \<Rightarrow> []) @
     (if sb_logout_label v then [''Logout''] else [])"

section \<open>Dropdowns and highlighting\<close>

lemma toggle_dropdown_member:
  "x \<in> set (toggle_dropdown l prev) \<longleftrightarrow> (if x = l then l \<notin> set prev else x \<in> set prev)"
  by (auto simp: toggle_dropdown_def)

lemma toggle_dropdown_distinct: "distinct prev \<Longrightarrow> distinct (toggle_dropdown l prev)"
  by (simp add: toggle_dropdown_def distinct_filter)

text \<open>
  Toggling a dropdown flips whether its label is open and leaves every other
  dropdown as it was; toggling twice restores the set of open dropdowns.
\<close>

theorem toggle_dropdown_flips:
  "set (toggle_dropdown l prev) = (if l \<in> set prev then set prev - {l} else insert l (set prev)) \<and>
   set (toggle_dropdown l (toggle_dropdown l prev)) = set prev"
  by (auto simp: toggle_dropdown_def)

text \<open>
  C32: Whatever the path, the sidebar state and the open dropdowns, at most one
  navigation link is highlighted as active.
\<close>

theorem at_most_one_highlighted:
  "length (concat (map highlighted (render_navigation path is_open opened))) \<le> 1"
  by (auto simp: render_navigation_def navigation_def href_def)

section \<open>Logout\<close>

text \<open>
  Logout removes the token cookie, clears the signed-in name (no greeting), and
  navigates to /login, so the next request carries no Authorization header; with the
  auth slice's \<open>logOut\<close> as the spec describes it, the API cache is empty.
\<close>

theorem logout_clears_session:
  "access_token (handle_log_out s) = None \<and> location (handle_log_out s) = ''/login'' \<and>
   greeting (handle_log_out s) = None \<and>
   map_of (rev (http_headers (fetch_request (access_token (handle_log_out s)) r))) ''Authorization'' = None \<and>
   api_cache (handle_log_out s) = cache_init"
  by (simp add: handle_log_out_def log_out_def greeting_def fetch_request_def prepare_headers_def)

section \<open>The collapsed sidebar\<close>

text \<open>
  C33: A collapsed sidebar shows no text at all (no labels, no sub-items, the greeting
  hidden, no logout label) whatever dropdowns are open; an expanded one with no dropdown
  open shows the four top-level labels, the greeting of a signed-in user, and Logout.
\<close>

theorem collapsed_sidebar_no_text:
  "visible_text (render_sidebar False opened s) = [] \<and>
   visible_text (render_sidebar True [] s) =
     [''Dashboard'', ''E-commerce'', ''Users'', ''Blog''] @
     (case greeting s of None \<Rightarrow> [] | Some g \<Rightarrow> [g]) @ [''Logout'']"
  by (simp add: visible_text_def render_sidebar_def render_navigation_def navigation_def
      split: option.split)

end
