(* ===== verification/ProductForm.thy ===== *)
theory ProductForm
  imports Api
begin

text \<open>
  The product form, \<open>src/src/components/Add product/AddProduct.tsx\<close>.  One page serves
  both adding (no product loaded) and editing (the product of the route's \<open>id\<close>
  loaded through \<open>singleProduct\<close>).  Modelled: the zod \<open>schema\<close> as the list of
  field errors the resolver reports (the first issue of each field); the form values
  of react-hook-form; the component's state (\<open>image\<close> preview, \<open>productImage\<close>
  file, the \<open>FormData\<close> object of the render, the toasts shown); the \<open>useEffect\<close>
  that resets the form from the loaded product; \<open>onSubmit\<close> for both branches, with
  the mutation's response as a parameter standing for the awaited result; and the two
  image handlers; of the markup, the error line under each input and the image area.
  Styling is not modelled.  The page's render/effect cycle is in \<open>PageEffects\<close>.
\<close>

section \<open>Form values and the schema\<close>

text \<open>
  A number input registered with \<open>valueAsNumber\<close> holds a number, or \<open>NaN\<close> when it
  is empty or not numeric; before any input (and after a reset to \<open>undefined\<close>) it
  holds \<open>undefined\<close>.
\<close>

datatype num_field = NUndef | NNaN | Num rat

record product_values =
  p_name :: string
  p_category :: string
  p_color :: string
  p_size :: string
  p_price :: num_field
  p_inStock :: num_field
  p_description :: string

text \<open>\<open>z.string().min(1, msg)\<close>: one issue when the string is empty.\<close>

definition string_issues :: "string \<Rightarrow> string \<Rightarrow> string list" where
  "string_issues msg s = (if length s < 1 then [msg] else [])"

text \<open>
  \<open>z.number({invalid_type_error})\<close> followed by checks: \<open>undefined\<close> gives zod's
  \<open>"Required"\<close>, \<open>NaN\<close> the invalid-type message, a number every failed check's
  message, in the order of the checks.
\<close>

definition number_issues :: "string \<Rightarrow> ((rat \<Rightarrow> bool) \<times> string) list \<Rightarrow> num_field \<Rightarrow> string list" where
  "number_issues type_msg checks f =
     (case f of
        NUndef \<Rightarrow> [''Required'']
      | NNaN \<Rightarrow> [type_msg]
      | Num x \<Rightarrow> map snd (filter (\<lambda>ck. \<not> fst ck x) checks))"

definition schema_issues :: "product_values \<Rightarrow> (string \<times> string list) list" where
  "schema_issues v =
     [(''name'', string_issues ''Product Name is required'' (p_name v)),
      (''category'', string_issues ''Category is required'' (p_category v)),
      (''color'', string_issues ''Color is required'' (p_color v)),
      (''size'', string_issues ''Size is required'' (p_size v)),
      (''price'', number_issues ''Price must be a number''
          [(\<lambda>x. 0 < x, ''Price must be greater than zero''),
           (\<lambda>x. 0 \<le> x, ''Price must be a positive number'')] (p_price v)),
      (''inStock'', number_issues ''In Stock must be a number''
          [(\<lambda>x. 0 \<le> x, ''In Stock must be a non-negative number'')] (p_inStock v)),
      (''description'', string_issues ''Description is required'' (p_description v))]"

text \<open>\<open>zodResolver\<close>: the \<open>errors\<close> object, the first issue of each failing field.\<close>

definition field_errors :: "product_values \<Rightarrow> (string \<times> string) list" where
  "field_errors v = map (\<lambda>fi. (fst fi, hd (snd fi))) (filter (\<lambda>fi. snd fi \<noteq> []) (schema_issues v))"

definition default_values :: product_values where
  "default_values = \<lparr>p_name = [], p_category = [], p_color = [], p_size = [], p_price = NUndef,
     p_inStock = NUndef, p_description = []\<rparr>"

section \<open>The loaded product and the component state\<close>

text \<open>The product the API returns (\<open>data.data\<close> of \<open>singleProduct\<close>).\<close>

record product =
  prod_id :: string
  prod_name :: string
  prod_category :: string
  prod_color :: string
  prod_size :: "string list"
  prod_price :: rat
  prod_inStock :: rat
  prod_description :: string
  prod_image :: string

record add_product_state =
  image_preview :: "string option"
  productImage :: "js_file option"
  form_values :: product_values
  errors :: "(string \<times> string) list"
  fromData :: form_data
  toasts :: "toast list"

definition add_product_init :: add_product_state where
  "add_product_init = \<lparr>image_preview = None, productImage = None, form_values = default_values, errors = [],
     fromData = [], toasts = []\<rparr>"

text \<open>\<open>useSingleProductQuery(id)\<close>: with no route \<open>id\<close> the argument is \<open>undefined\<close>,
  which the template literal turns into the path \<open>/products/undefined\<close>.\<close>

definition single_product_call :: "string option \<Rightarrow> api_call" where
  "single_product_call i = Product (singleProduct (case i of None \<Rightarrow> ''undefined'' | Some s \<Rightarrow> s))"

text \<open>\<open>x || undefined\<close> for a number \<open>x\<close> of the API: \<open>0\<close> is falsy.\<close>

definition num_or_undef :: "rat \<Rightarrow> num_field" where
  "num_or_undef x = (if x = 0 then NUndef else Num x)"

text \<open>The \<open>useEffect\<close> on \<open>result\<close>: \<open>reset({...})\<close> (which also clears the
  errors) and \<open>setImage(result.productImage)\<close>.\<close>

definition reset_from_result :: "product \<Rightarrow> add_product_state \<Rightarrow> add_product_state" where
  "reset_from_result r st =
     st\<lparr>form_values := \<lparr>p_name = str_or (prod_name r) [], p_category = str_or (prod_category r) [],
          p_color = str_or (prod_color r) [], p_size = str_or (js_join CHR '','' (prod_size r)) [],
          p_price = num_or_undef (prod_price r), p_inStock = num_or_undef (prod_inStock r),
          p_description = str_or (prod_description r) []\<rparr>,
        errors := [], image_preview := Some (prod_image r)\<rparr>"

text \<open>\<open>handleImageUpload\<close>: the first selected file (or \<open>undefined\<close>) becomes
  \<open>productImage\<close>; a \<open>FileReader\<close> is started when there is a file, and its
  \<open>onload\<close> (\<open>image_loaded\<close>) later sets the preview.\<close>

definition handle_image_upload :: "js_file option \<Rightarrow> add_product_state \<Rightarrow> add_product_state" where
  "handle_image_upload f st = st\<lparr>productImage := f\<rparr>"

definition image_loaded :: "string \<Rightarrow> add_product_state \<Rightarrow> add_product_state" where
  "image_loaded data_url st = st\<lparr>image_preview := Some data_url\<rparr>"

definition remove_image :: "add_product_state \<Rightarrow> add_product_state" where
  "remove_image st = st\<lparr>image_preview := None\<rparr>"

section \<open>Submission\<close>

text \<open>\<open>JSON.stringify({...data, size: sizeArray})\<close>: the zod output keeps the schema's
  key order, \<open>size\<close> is replaced in place by the comma-split array, an
  \<open>undefined\<close> number is left out and \<open>NaN\<close> becomes \<open>null\<close>.\<close>

definition num_entry :: "string \<Rightarrow> num_field \<Rightarrow> (string \<times> json) list" where
  "num_entry k f = (case f of NUndef \<Rightarrow> [] | NNaN \<Rightarrow> [(k, JNull)] | Num x \<Rightarrow> [(k, JNum x)])"

definition body_data :: "product_values \<Rightarrow> json" where
  "body_data v =
     JObj ([(''name'', JStr (p_name v)), (''category'', JStr (p_category v)),
            (''color'', JStr (p_color v)), (''size'', JArr (map JStr (js_split CHR '','' (p_size v))))]
           @ num_entry ''price'' (p_price v) @ num_entry ''inStock'' (p_inStock v)
           @ [(''description'', JStr (p_description v))])"

text \<open>
  \<open>onSubmit(data)\<close>, given the loaded product (\<open>result\<close>), the validated values, and
  the mutation's result: the call it triggers and the state after the response.  The
  \<open>FormData\<close> of the render is appended to, not replaced.
\<close>

definition on_submit ::
  "product option \<Rightarrow> product_values \<Rightarrow> mutation_result \<Rightarrow> add_product_state \<Rightarrow>
   api_call \<times> add_product_state" where
  "on_submit result v res st =
     (case result of
        Some r \<Rightarrow>
          let fd = fromData st @ [(''bodyData'', FVJson (body_data v))]
                   @ (case productImage st of None \<Rightarrow> [] | Some f \<Rightarrow> [(''productImage'', FVFile f)]);
              st' = st\<lparr>fromData := fd\<rparr>
          in (Product (updateProduct (prod_id r) (FormBody fd)),
              case res of
                MutError \<Rightarrow> st'\<lparr>toasts := toasts st @ [ToastError ''Failed to update product'']\<rparr>
              | MutData d \<Rightarrow> if js_truthy d
                  then st'\<lparr>toasts := toasts st @ [ToastSuccess ''Product update successfully'']\<rparr>
                  else st')
      | None \<Rightarrow>
          let fd = fd_append_file ''productImage'' (productImage st)
                     (fromData st @ [(''bodyData'', FVJson (body_data v))]);
              st' = st\<lparr>fromData := fd\<rparr>
          in (Product (addProduct (FormBody fd)),
              case res of
                MutError \<Rightarrow> st'\<lparr>toasts := toasts st @ [ToastError ''Failed to add product'']\<rparr>
              | MutData d \<Rightarrow> if js_truthy d
                  then st'\<lparr>form_values := default_values, errors := [],
                           toasts := toasts st @ [ToastSuccess ''Product added successfully'']\<rparr>
                  else st'))"

text \<open>
  \<open>handleSubmit(onSubmit)\<close>: the resolver runs first; with errors the submission stops
  and the errors are shown, otherwise they are cleared and \<open>onSubmit\<close> runs.
\<close>

definition handle_submit ::
  "product option \<Rightarrow> mutation_result \<Rightarrow> add_product_state \<Rightarrow> api_call option \<times> add_product_state" where
  "handle_submit result res st =
     (if field_errors (form_values st) = []
      then (let (c, st') = on_submit result (form_values st) res (st\<lparr>errors := []\<rparr>) in (Some c, st'))
      else (None, st\<lparr>errors := field_errors (form_values st)\<rparr>))"



section \<open>What the page shows\<close>

text \<open>
  The image area: \<open>{image ? preview : input}\<close>, the preview with its delete button
  when \<open>image\<close> is a non-empty string, the file input otherwise.
\<close>

datatype image_area = PreviewWithDelete string | FileInput

definition image_area_view :: "add_product_state \<Rightarrow> image_area" where
  "image_area_view st =
     (case image_preview st of
        Some src \<Rightarrow> if src = [] then FileInput else PreviewWithDelete src
      | None \<Rightarrow> FileInput)"

text \<open>
  The inputs in the order of the form, each followed by
  \<open>{errors.f && <p>{errors.f.message}</p>}\<close>: the error lines the page shows.
\<close>

definition form_fields :: "string list" where
  "form_fields = [''name'', ''category'', ''color'', ''size'', ''price'', ''inStock'', ''description'']"

definition shown_errors :: "add_product_state \<Rightarrow> (string \<times> string) list" where
  "shown_errors st =
     concat (map (\<lambda>f. case map_of (errors st) f of None \<Rightarrow> [] | Some m \<Rightarrow> [(f, m)]) form_fields)"

section \<open>The validation gate\<close>

lemma string_issues_Nil [simp]: "string_issues msg s = [] \<longleftrightarrow> s \<noteq> []"
  by (simp add: string_issues_def)

lemma number_issues_Nil:
  "number_issues m cks f = [] \<longleftrightarrow> (\<exists>x. f = Num x \<and> list_all (\<lambda>ck. fst ck x) cks)"
  by (cases f) (auto simp: number_issues_def filter_empty_conv list_all_iff)

lemma field_errors_Nil_iff:
  "field_errors v = [] \<longleftrightarrow>
     p_name v \<noteq> [] \<and> p_category v \<noteq> [] \<and> p_color v \<noteq> [] \<and> p_size v \<noteq> [] \<and>
     p_description v \<noteq> [] \<and> (\<exists>p. p_price v = Num p \<and> 0 < p) \<and> (\<exists>s. p_inStock v = Num s \<and> 0 \<le> s)"
  by (auto simp: field_errors_def schema_issues_def number_issues_Nil filter_empty_conv)

text \<open>
  C4: Submission is blocked unless every required text field is non-empty, the price is a
  number greater than zero and the stock a number at least zero; when all hold, the
  form submits (and triggers a mutation).
\<close>

theorem submit_gate:
  "fst (handle_submit result res st) \<noteq> None \<longleftrightarrow>
     p_name (form_values st) \<noteq> [] \<and> p_category (form_values st) \<noteq> [] \<and>
     p_color (form_values st) \<noteq> [] \<and> p_size (form_values st) \<noteq> [] \<and>
     p_description (form_values st) \<noteq> [] \<and>
     (\<exists>p. p_price (form_values st) = Num p \<and> 0 < p) \<and>
     (\<exists>s. p_inStock (form_values st) = Num s \<and> 0 \<le> s)"
  by (simp add: handle_submit_def field_errors_Nil_iff [symmetric] split: prod.split)

lemma field_errors_price:
  "(''price'', m) \<in> set (field_errors v) \<longleftrightarrow> number_issues ''Price must be a number''
          [(\<lambda>x. 0 < x, ''Price must be greater than zero''),
           (\<lambda>x. 0 \<le> x, ''Price must be a positive number'')] (p_price v) \<noteq> [] \<and>
     m = hd (number_issues ''Price must be a number''
          [(\<lambda>x. 0 < x, ''Price must be greater than zero''),
           (\<lambda>x. 0 \<le> x, ''Price must be a positive number'')] (p_price v))"
  by (auto simp: field_errors_def schema_issues_def)

text \<open>
  The schema's second price check (\<open>nonnegative\<close>, "Price must be a positive
  number") is never reported: every price it rejects the first check rejects first.
\<close>

theorem price_positive_message_unreachable:
  "(''price'', ''Price must be a positive number'') \<notin> set (field_errors v)"
  by (cases "p_price v") (auto simp: field_errors_price number_issues_def)

text \<open>
  C9: Editing a product whose stock is 0: the reset turns the stock into
  \<open>undefined\<close> (\<open>result.inStock || undefined\<close>), so submitting the form unchanged is
  blocked with the error "Required" on the stock field.
\<close>

theorem zero_stock_edit_blocked:
  assumes "prod_inStock r = 0"
  shows "fst (handle_submit (Some r) res (reset_from_result r st)) = None \<and>
         (''inStock'', ''Required'') \<in> set (errors (snd (handle_submit (Some r) res (reset_from_result r st))))"
  using assms
  by (simp add: handle_submit_def field_errors_Nil_iff reset_from_result_def num_or_undef_def)
     (simp add: field_errors_def schema_issues_def reset_from_result_def num_or_undef_def number_issues_def)



section \<open>What a submission sends\<close>

lemma handle_submit_valid:
  "field_errors (form_values st) = [] \<Longrightarrow>
   handle_submit result res st =
     (Some (fst (on_submit result (form_values st) res (st\<lparr>errors := []\<rparr>))),
      snd (on_submit result (form_values st) res (st\<lparr>errors := []\<rparr>)))"
  by (simp add: handle_submit_def split: prod.split)

lemma reset_values_valid:
  assumes "prod_name r \<noteq> []" "prod_category r \<noteq> []" "prod_color r \<noteq> []"
    "prod_description r \<noteq> []" "js_join CHR '','' (prod_size r) \<noteq> []"
    "0 < prod_price r" "0 < prod_inStock r"
  shows "field_errors (form_values (reset_from_result r st)) = []"
  using assms by (simp add: field_errors_Nil_iff reset_from_result_def str_or_def num_or_undef_def)

text \<open>
  C10: Editing a valid product and submitting unchanged sends back its own data: the sizes
  joined with commas by the reset are split back into the same list, provided no size
  holds a comma.
\<close>

theorem edit_roundtrip:
  assumes "prod_name r \<noteq> []" "prod_category r \<noteq> []" "prod_color r \<noteq> []"
    "prod_description r \<noteq> []" "prod_size r \<noteq> []" "\<forall>w\<in>set (prod_size r). CHR '','' \<notin> set w"
    "js_join CHR '','' (prod_size r) \<noteq> []" "0 < prod_price r" "0 < prod_inStock r"
  shows "fst (handle_submit (Some r) res (reset_from_result r st)) =
     Some (Product (updateProduct (prod_id r) (FormBody (fromData st @
       [(''bodyData'', FVJson (JObj [(''name'', JStr (prod_name r)), (''category'', JStr (prod_category r)),
          (''color'', JStr (prod_color r)), (''size'', JArr (map JStr (prod_size r))),
          (''price'', JNum (prod_price r)), (''inStock'', JNum (prod_inStock r)),
          (''description'', JStr (prod_description r))]))] @
       (case productImage st of None \<Rightarrow> [] | Some f \<Rightarrow> [(''productImage'', FVFile f)])))))"
proof -
  have v: "field_errors (form_values (reset_from_result r st)) = []"
    using assms by (intro reset_values_valid) simp_all
  have s: "js_split CHR '','' (js_join CHR '','' (prod_size r)) = prod_size r"
    using assms(6,5) by (rule js_split_join)
  show ?thesis
    unfolding handle_submit_valid [OF v]
    using assms s
    by (simp add: on_submit_def body_data_def reset_from_result_def str_or_def num_or_undef_def
        num_entry_def Let_def)
qed

text \<open>The call a valid add submission triggers, before the file entry is spelled out.\<close>

lemma add_submit_call:
  assumes "field_errors (form_values st) = []"
  shows "fst (handle_submit None res st) =
     Some (Product (addProduct (FormBody (fd_append_file ''productImage'' (productImage st)
       (fromData st @ [(''bodyData'', FVJson (body_data (form_values st)))])))))"
  using assms by (simp add: handle_submit_valid on_submit_def Let_def)

text \<open>
  C5: A valid add submission triggers one \<open>addProduct\<close> call whose multipart body
  appends to the render's FormData the JSON of the values under \<open>bodyData\<close> and the
  chosen file under \<open>productImage\<close>, or the string "undefined" when no file was
  chosen.
\<close>

theorem add_request_shape:
  assumes "field_errors (form_values st) = []"
  shows "fst (handle_submit None res st) =
     Some (Product (addProduct (FormBody (fromData st @
       [(''bodyData'', FVJson (body_data (form_values st))),
        (''productImage'', case productImage st of None \<Rightarrow> FVString ''undefined'' | Some f \<Rightarrow> FVFile f)]))))"
  using add_submit_call [OF assms] by (simp add: fd_append_file_def)

text \<open>
  C23: Removing the chosen image clears only the preview: a later add submission still
  uploads the removed file.
\<close>

theorem removed_image_still_sent:
  assumes "field_errors (form_values st) = []"
  shows "image_preview (remove_image (image_loaded u (handle_image_upload (Some f) st))) = None \<and>
     fst (handle_submit None res (remove_image (image_loaded u (handle_image_upload (Some f) st)))) =
     Some (Product (addProduct (FormBody (fromData st @
       [(''bodyData'', FVJson (body_data (form_values st))), (''productImage'', FVFile f)]))))"
proof -
  let ?st = "remove_image (image_loaded u (handle_image_upload (Some f) st))"
  have "form_values ?st = form_values st" "productImage ?st = Some f" "fromData ?st = fromData st"
    by (simp_all add: remove_image_def image_loaded_def handle_image_upload_def)
  then show ?thesis
    using add_submit_call [of ?st res] assms
    by (simp add: remove_image_def fd_append_file_def)
qed

text \<open>
  C24: When the mutation fails, the entered values are kept and an error notification is
  shown.
\<close>

theorem failed_submit_keeps_input:
  assumes "field_errors (form_values st) = []"
  shows "form_values (snd (handle_submit result MutError st)) = form_values st \<and>
     (\<exists>m. toasts (snd (handle_submit result MutError st)) = toasts st @ [ToastError m])"
  using assms
  by (cases result) (simp_all add: handle_submit_valid on_submit_def Let_def)

text \<open>
  C28: After a successful add the form values return to their defaults, but the chosen
  file and its preview stay: the next add sends the same file again.
\<close>

theorem add_success_resets_values_only:
  assumes "field_errors (form_values st) = []" and "js_truthy d"
  shows "form_values (snd (handle_submit None (MutData d) st)) = default_values \<and>
     productImage (snd (handle_submit None (MutData d) st)) = productImage st \<and>
     image_preview (snd (handle_submit None (MutData d) st)) = image_preview st"
  using assms
  by (simp add: handle_submit_valid on_submit_def Let_def)

section \<open>What the page shows after a submission\<close>

lemma shown_first_issues:
  "distinct (map fst L) \<Longrightarrow>
   concat (map (\<lambda>f. case map_of (map (\<lambda>fi. (fst fi, hd (snd fi))) (filter (\<lambda>fi. snd fi \<noteq> []) L)) f of
                      None \<Rightarrow> [] | Some m \<Rightarrow> [(f, m)]) (map fst L)) =
   map (\<lambda>fi. (fst fi, hd (snd fi))) (filter (\<lambda>fi. snd fi \<noteq> []) L)"
proof (induction L)
  case (Cons ki L)
  obtain k iss where ki: "ki = (k, iss)" by (cases ki)
  let ?R = "map (\<lambda>fi. (fst fi, hd (snd fi))) (filter (\<lambda>fi. snd fi \<noteq> []) L)"
  let ?g = "\<lambda>R f. case map_of R f of None \<Rightarrow> [] | Some m \<Rightarrow> [(f, m)]"
  have nk: "k \<notin> set (map fst L)" and d: "distinct (map fst L)" using Cons.prems ki by simp_all
  have none: "map_of ?R k = None" using nk by (force simp: map_of_eq_None_iff)
  have other: "map (?g ((k, hd iss) # ?R)) (map fst L) = map (?g ?R) (map fst L)"
    using nk by (intro map_cong) auto
  have ih: "concat (map (?g ?R) (map fst L)) = ?R" using Cons.IH [OF d] .
  have step: "concat (map (?g ((k, hd iss) # ?R)) (map fst L)) = ?R"
    by (subst other) (rule ih)
  show ?case
  proof (cases "iss = []")
    case True
    then show ?thesis using ki none ih by simp
  next
    case False
    then show ?thesis using ki step by simp
  qed
qed simp

lemma schema_fields: "map fst (schema_issues v) = form_fields"
  by (simp add: schema_issues_def form_fields_def)

lemma on_submit_errors: "errors (snd (on_submit r v res (st\<lparr>errors := []\<rparr>))) = []"
  by (simp add: on_submit_def Let_def split: option.splits mutation_result.splits)

text \<open>
  C25: After any submission, blocked or not, the page shows one error line per invalid
  field, in the order of the form, each with the first message the schema gives that
  field; a valid submission shows none.
\<close>

theorem shown_errors_after_submit:
  "shown_errors (snd (handle_submit r res st)) = field_errors (form_values st)"
proof (cases "field_errors (form_values st) = []")
  case True
  then show ?thesis
    using on_submit_errors [of r "form_values st" res st]
    by (simp add: handle_submit_def shown_errors_def split_def Let_def)
next
  case False
  have "distinct (map fst (schema_issues (form_values st)))"
    by (simp add: schema_issues_def)
  from shown_first_issues [OF this] False show ?thesis
    by (simp add: handle_submit_def shown_errors_def field_errors_def schema_fields)
qed

text \<open>
  Choosing a file keeps the file input on screen until the reader has loaded it; the
  loaded data shows as a preview with a delete button; deleting brings the file input
  back while the chosen file stays attached to the form.
\<close>

theorem image_area_flow:
  assumes "image_preview st = None" and "src \<noteq> []"
  shows "image_area_view (handle_image_upload (Some f) st) = FileInput \<and>
         image_area_view (image_loaded src (handle_image_upload (Some f) st)) = PreviewWithDelete src \<and>
         image_area_view (remove_image (image_loaded src (handle_image_upload (Some f) st))) = FileInput \<and>
         productImage (remove_image (image_loaded src (handle_image_upload (Some f) st))) = Some f"
  using assms
  by (simp add: image_area_view_def handle_image_upload_def image_loaded_def remove_image_def)

section \<open>Witnesses\<close>

theorem zero_stock_edit_blocked_witness:
  "fst (handle_submit (Some \<lparr>prod_id = ''p1'', prod_name = ''Shirt'', prod_category = ''Clothes'', prod_color = ''Red'', prod_size = [''S'', ''M''], prod_price = 10, prod_inStock = 0, prod_description = ''desc'', prod_image = ''shirt.png''\<rparr>) MutError
     (reset_from_result \<lparr>prod_id = ''p1'', prod_name = ''Shirt'', prod_category = ''Clothes'', prod_color = ''Red'', prod_size = [''S'', ''M''], prod_price = 10, prod_inStock = 0, prod_description = ''desc'', prod_image = ''shirt.png''\<rparr> add_product_init)) = None"
  using zero_stock_edit_blocked [of "\<lparr>prod_id = ''p1'', prod_name = ''Shirt'', prod_category = ''Clothes'', prod_color = ''Red'', prod_size = [''S'', ''M''], prod_price = 10, prod_inStock = 0, prod_description = ''desc'', prod_image = ''shirt.png''\<rparr>" MutError add_product_init]
  by simp

theorem edit_roundtrip_witness:
  "fst (handle_submit (Some \<lparr>prod_id = ''p1'', prod_name = ''Shirt'', prod_category = ''Clothes'', prod_color = ''Red'', prod_size = [''S'', ''M''], prod_price = 10, prod_inStock = 5, prod_description = ''desc'', prod_image = ''shirt.png''\<rparr>) (MutData JNull) (reset_from_result \<lparr>prod_id = ''p1'', prod_name = ''Shirt'', prod_category = ''Clothes'', prod_color = ''Red'', prod_size = [''S'', ''M''], prod_price = 10, prod_inStock = 5, prod_description = ''desc'', prod_image = ''shirt.png''\<rparr> add_product_init)) =
   Some (Product (updateProduct ''p1'' (FormBody
     [(''bodyData'', FVJson (JObj [(''name'', JStr ''Shirt''), (''category'', JStr ''Clothes''),
        (''color'', JStr ''Red''), (''size'', JArr [JStr ''S'', JStr ''M'']), (''price'', JNum 10),
        (''inStock'', JNum 5), (''description'', JStr ''desc'')]))])))"
  using edit_roundtrip [of "\<lparr>prod_id = ''p1'', prod_name = ''Shirt'', prod_category = ''Clothes'', prod_color = ''Red'', prod_size = [''S'', ''M''], prod_price = 10, prod_inStock = 5, prod_description = ''desc'', prod_image = ''shirt.png''\<rparr>" "MutData JNull" add_product_init]
  by (simp add: add_product_init_def js_join.simps)

theorem add_request_shape_witness:
  "fst (handle_submit None (MutData (JObj [])) (add_product_init\<lparr>form_values := \<lparr>p_name = ''Shirt'', p_category = ''Clothes'', p_color = ''Red'', p_size = ''S,M'', p_price = Num 10, p_inStock = Num 5, p_description = ''desc''\<rparr>, productImage := Some (File ''shirt.png'')\<rparr>)) =
   Some (Product (addProduct (FormBody
     [(''bodyData'', FVJson (JObj [(''name'', JStr ''Shirt''), (''category'', JStr ''Clothes''),
        (''color'', JStr ''Red''), (''size'', JArr [JStr ''S'', JStr ''M'']), (''price'', JNum 10),
        (''inStock'', JNum 5), (''description'', JStr ''desc'')])),
      (''productImage'', FVFile (File ''shirt.png''))])))"
  using add_request_shape [of "(add_product_init\<lparr>form_values := \<lparr>p_name = ''Shirt'', p_category = ''Clothes'', p_color = ''Red'', p_size = ''S,M'', p_price = Num 10, p_inStock = Num 5, p_description = ''desc''\<rparr>, productImage := Some (File ''shirt.png'')\<rparr>)" "MutData (JObj [])"]
  by (simp add: add_product_init_def field_errors_Nil_iff body_data_def num_entry_def js_split_def)

theorem removed_image_still_sent_witness:
  "fst (handle_submit None (MutData (JObj []))
     (remove_image (image_loaded ''data:image/png'' (handle_image_upload (Some (File ''shirt.png''))
        (add_product_init\<lparr>form_values := \<lparr>p_name = ''Shirt'', p_category = ''Clothes'', p_color = ''Red'', p_size = ''S,M'', p_price = Num 10, p_inStock = Num 5, p_description = ''desc''\<rparr>\<rparr>))))) \<noteq> None"
  using removed_image_still_sent [of "add_product_init\<lparr>form_values := \<lparr>p_name = ''Shirt'', p_category = ''Clothes'', p_color = ''Red'', p_size = ''S,M'', p_price = Num 10, p_inStock = Num 5, p_description = ''desc''\<rparr>\<rparr>"]
  by (simp add: add_product_init_def field_errors_Nil_iff)

theorem failed_submit_keeps_input_witness:
  "form_values (snd (handle_submit None MutError (add_product_init\<lparr>form_values := \<lparr>p_name = ''Shirt'', p_category = ''Clothes'', p_color = ''Red'', p_size = ''S,M'', p_price = Num 10, p_inStock = Num 5, p_description = ''desc''\<rparr>, productImage := Some (File ''shirt.png'')\<rparr>))) = \<lparr>p_name = ''Shirt'', p_category = ''Clothes'', p_color = ''Red'', p_size = ''S,M'', p_price = Num 10, p_inStock = Num 5, p_description = ''desc''\<rparr>"
  using failed_submit_keeps_input [of "(add_product_init\<lparr>form_values := \<lparr>p_name = ''Shirt'', p_category = ''Clothes'', p_color = ''Red'', p_size = ''S,M'', p_price = Num 10, p_inStock = Num 5, p_description = ''desc''\<rparr>, productImage := Some (File ''shirt.png'')\<rparr>)" None]
  by (simp add: add_product_init_def field_errors_Nil_iff)

theorem add_success_resets_values_only_witness:
  "productImage (snd (handle_submit None (MutData (JObj [])) (add_product_init\<lparr>form_values := \<lparr>p_name = ''Shirt'', p_category = ''Clothes'', p_color = ''Red'', p_size = ''S,M'', p_price = Num 10, p_inStock = Num 5, p_description = ''desc''\<rparr>, productImage := Some (File ''shirt.png'')\<rparr>))) = Some (File ''shirt.png'')"
  using add_success_resets_values_only [of "(add_product_init\<lparr>form_values := \<lparr>p_name = ''Shirt'', p_category = ''Clothes'', p_color = ''Red'', p_size = ''S,M'', p_price = Num 10, p_inStock = Num 5, p_description = ''desc''\<rparr>, productImage := Some (File ''shirt.png'')\<rparr>)" "JObj []"]
  by (simp add: add_product_init_def field_errors_Nil_iff)

theorem image_area_flow_witness:
  "productImage (remove_image (image_loaded ''data:image/png;base64,AA''
      (handle_image_upload (Some (File ''shirt.png'')) add_product_init))) = Some (File ''shirt.png'')"
  using image_area_flow [of add_product_init "''data:image/png;base64,AA''" "File ''shirt.png''"]
  by (simp add: add_product_init_def)

end
