(* ===== verification/BlogForm.thy ===== *)
theory BlogForm
  imports Api "HOL-Library.AList"
begin

text \<open>
  The blog form, \<open>src/src/components/blogs/AddBlog.tsx\<close>.  The page edits a blog
  when the URL carries \<open>?id=...\<close> (with \<open>title\<close> and \<open>image\<close> parameters) and
  creates one otherwise.  Its \<open>formData\<close> state is a JavaScript object, modelled as
  an association list so that the keys the handlers write are explicit; it is sent as
  the JSON body.  Modelled: the initial state, the \<open>useEffect\<close> that fills the form
  in edit mode (edit mode is a truthy \<open>blogId\<close>), \<open>handleImageUpload\<close> (read as one block with the upload's outcome as a
  parameter, and split at its \<open>await\<close> into a start and an answer),
  \<open>handleCancelImage\<close>, \<open>handleChange\<close>, \<open>handleEditorChange\<close> and
  \<open>handleSubmit\<close>, and the events of the page as a step function over them, in which the
  answer of an upload is an event of its own and the page ignores every event once it
  has navigated away.  The rich-text editor itself and the
  markup are not modelled.
\<close>

section \<open>State\<close>

text \<open>The search parameters \<open>id\<close>, \<open>title\<close>, \<open>image\<close> (absent: \<open>None\<close>).\<close>

record blog_params =
  param_id :: "string option"
  param_title :: "string option"
  param_image :: "string option"

type_synonym js_object = "(string \<times> json) list"

record add_blog_state =
  imagePreview :: "string option"
  imageName :: json
  formData :: js_object
  file_input :: string
  blog_toasts :: "toast list"
  pushed :: "string list"

definition empty_blog :: js_object where
  "empty_blog = [(''title'', JStr []), (''image'', JStr []), (''description'', JStr [])]"

text \<open>\<open>blogTitle\<close> and \<open>blogImage\<close>: the parameter or \<open>""\<close>.\<close>

definition blog_title :: "blog_params \<Rightarrow> string" where
  "blog_title p = str_or (case param_title p of None \<Rightarrow> [] | Some t \<Rightarrow> t) []"

definition blog_image :: "blog_params \<Rightarrow> string" where
  "blog_image p = str_or (case param_image p of None \<Rightarrow> [] | Some t \<Rightarrow> t) []"

text \<open>
  \<open>if (blogId)\<close> and \<open>blogId ? ... : ...\<close> test JavaScript truthiness: an empty
  \<open>?id=\<close> is falsy, so the page is in edit mode only for a non-empty id.
\<close>

definition edit_id :: "blog_params \<Rightarrow> string option" where
  "edit_id p = (case param_id p of Some i \<Rightarrow> if i = [] then None else Some i | None \<Rightarrow> None)"

definition add_blog_init :: "blog_params \<Rightarrow> add_blog_state" where
  "add_blog_init p =
     \<lparr>imagePreview = (if blog_image p = [] then None else Some (blog_image p)),
      imageName = JStr [], formData = empty_blog, file_input = [], blog_toasts = [], pushed = []\<rparr>"

text \<open>The \<open>useEffect\<close> on the parameters: in edit mode the form gets the title and
  image of the URL and an empty description.\<close>

definition populate :: "blog_params \<Rightarrow> add_blog_state \<Rightarrow> add_blog_state" where
  "populate p st =
     (case edit_id p of
        None \<Rightarrow> st
      | Some _ \<Rightarrow> st\<lparr>formData := [(''title'', JStr (blog_title p)), (''image'', JStr (blog_image p)),
                                  (''description'', JStr [])]\<rparr>)"

section \<open>Handlers\<close>

text \<open>\<open>{...prev, [k]: v}\<close>: an existing key keeps its place, a new key is appended.\<close>

definition set_key :: "string \<Rightarrow> json \<Rightarrow> js_object \<Rightarrow> js_object" where
  "set_key k v obj = AList.update k v obj"

text \<open>\<open>URL.createObjectURL(file)\<close>.\<close>

definition object_url :: "js_file \<Rightarrow> string" where
  "object_url f = (case f of File n \<Rightarrow> ''blob:'' @ n)"

text \<open>
  The outcome of \<open>await upload(formDataImage).unwrap()\<close>: the response body, or the
  rejection, carrying \<open>error.data.message\<close> when that is a string.
\<close>

datatype upload_outcome = UploadReturns json | UploadThrows "string option"

text \<open>The upload request the handler triggers for a file.\<close>

definition upload_call_for :: "js_file \<Rightarrow> api_call" where
  "upload_call_for f = Upload (upload (FormBody [(''file'', FVFile f)]))"

definition handle_blog_image_upload ::
  "js_file option \<Rightarrow> upload_outcome \<Rightarrow> add_blog_state \<Rightarrow> api_call option \<times> add_blog_state" where
  "handle_blog_image_upload file out st =
     (case file of
        None \<Rightarrow> (None, st\<lparr>blog_toasts := blog_toasts st @ [ToastError ''No file selected!'']\<rparr>)
      | Some f \<Rightarrow>
          let st1 = st\<lparr>imagePreview := Some (object_url f)\<rparr> in
          (Some (upload_call_for f),
           case out of
             UploadReturns resp \<Rightarrow>
               (case Option.bind (json_get ''data'' resp) (json_get ''url'') of
                  Some u \<Rightarrow> if js_truthy u
                    then st1\<lparr>imageName := u, formData := set_key ''image'' u (formData st1),
                             blog_toasts := blog_toasts st @ [ToastSuccess ''Image uploaded successfully!'']\<rparr>
                    else st1\<lparr>blog_toasts := blog_toasts st @ [ToastError ''No image URL provided in the response.'']\<rparr>
                | None \<Rightarrow> st1\<lparr>blog_toasts := blog_toasts st @ [ToastError ''No image URL provided in the response.'']\<rparr>)
           | UploadThrows msg \<Rightarrow>
               st1\<lparr>blog_toasts := blog_toasts st @
                      [ToastError (case msg of Some m \<Rightarrow> str_or m ''Failed to upload image''
                                              | None \<Rightarrow> ''Failed to upload image'')]\<rparr>))"

text \<open>
  The handler is asynchronous: its synchronous part (the file check, the preview, the
  request) runs at once, its continuation after \<open>await upload(...)\<close> when the answer
  arrives, on the state of that moment (\<open>setFormData(prev => ...)\<close>).  Other events
  may run in between.
\<close>

definition upload_start :: "js_file option \<Rightarrow> add_blog_state \<Rightarrow> api_call option \<times> add_blog_state" where
  "upload_start file st =
     (case file of
        None \<Rightarrow> (None, st\<lparr>blog_toasts := blog_toasts st @ [ToastError ''No file selected!'']\<rparr>)
      | Some f \<Rightarrow> (Some (upload_call_for f), st\<lparr>imagePreview := Some (object_url f)\<rparr>))"

definition upload_finish :: "upload_outcome \<Rightarrow> add_blog_state \<Rightarrow> add_blog_state" where
  "upload_finish out st =
     (case out of
        UploadReturns resp \<Rightarrow>
          (case Option.bind (json_get ''data'' resp) (json_get ''url'') of
             Some u \<Rightarrow> if js_truthy u
               then st\<lparr>imageName := u, formData := set_key ''image'' u (formData st),
                        blog_toasts := blog_toasts st @ [ToastSuccess ''Image uploaded successfully!'']\<rparr>
               else st\<lparr>blog_toasts := blog_toasts st @ [ToastError ''No image URL provided in the response.'']\<rparr>
           | None \<Rightarrow> st\<lparr>blog_toasts := blog_toasts st @ [ToastError ''No image URL provided in the response.'']\<rparr>)
      | UploadThrows msg \<Rightarrow>
          st\<lparr>blog_toasts := blog_toasts st @
               [ToastError (case msg of Some m \<Rightarrow> str_or m ''Failed to upload image''
                                       | None \<Rightarrow> ''Failed to upload image'')]\<rparr>)"

definition handle_cancel_image :: "add_blog_state \<Rightarrow> add_blog_state" where
  "handle_cancel_image st =
     st\<lparr>imagePreview := None, formData := set_key ''image'' (JStr []) (formData st), file_input := []\<rparr>"

definition handle_change :: "string \<Rightarrow> string \<Rightarrow> add_blog_state \<Rightarrow> add_blog_state" where
  "handle_change k v st = st\<lparr>formData := set_key k (JStr v) (formData st)\<rparr>"

definition handle_editor_change :: "string \<Rightarrow> add_blog_state \<Rightarrow> add_blog_state" where
  "handle_editor_change content st = st\<lparr>formData := set_key ''description'' (JStr content) (formData st)\<rparr>"

text \<open>
  \<open>handleSubmit\<close>: update in edit mode, add otherwise, each awaited with
  \<open>.unwrap()\<close>; on success a notification, for an add a reset of the form, the
  preview and the file input, then navigation to \<open>/blog\<close>; on failure one
  notification.  There is no validation.
\<close>

definition blog_submit ::
  "blog_params \<Rightarrow> mutation_result \<Rightarrow> add_blog_state \<Rightarrow> api_call \<times> add_blog_state" where
  "blog_submit p res st =
     (case edit_id p of
        Some i \<Rightarrow>
          (Blog (updateBlog i (JObj (formData st))),
           case res of
             MutError \<Rightarrow> st\<lparr>blog_toasts := blog_toasts st @ [ToastError ''Failed to add blog'']\<rparr>
           | MutData _ \<Rightarrow> st\<lparr>blog_toasts := blog_toasts st @ [ToastSuccess ''Blog updated successfully!''],
                             pushed := pushed st @ [''/blog'']\<rparr>)
      | None \<Rightarrow>
          (Blog (addblog (JObj (formData st))),
           case res of
             MutError \<Rightarrow> st\<lparr>blog_toasts := blog_toasts st @ [ToastError ''Failed to add blog'']\<rparr>
           | MutData _ \<Rightarrow> st\<lparr>blog_toasts := blog_toasts st @ [ToastSuccess ''Blog added successfully!''],
                             formData := empty_blog, imagePreview := None, file_input := [],
                             pushed := pushed st @ [''/blog'']\<rparr>))"

section \<open>The page as a machine\<close>

text \<open>
  The events the page reacts to.  The only input with an \<open>onChange\<close> of
  \<open>handleChange\<close> is the title field (\<open>name="title"\<close>).  Choosing an image
  starts the upload; its answer is a later event, so that any event can come in between.
\<close>

datatype blog_event =
    UploadStarted "js_file option"
  | UploadAnswered upload_outcome
  | CancelImage
  | TitleInput string
  | EditorInput string
  | SubmitForm mutation_result

fun blog_handle :: "blog_params \<Rightarrow> add_blog_state \<Rightarrow> blog_event \<Rightarrow> api_call option \<times> add_blog_state" where
  "blog_handle p st (UploadStarted f) = upload_start f st"
| "blog_handle p st (UploadAnswered out) = (None, upload_finish out st)"
| "blog_handle p st CancelImage = (None, handle_cancel_image st)"
| "blog_handle p st (TitleInput v) = (None, handle_change ''title'' v st)"
| "blog_handle p st (EditorInput c) = (None, handle_editor_change c st)"
| "blog_handle p st (SubmitForm res) = (let (c, st') = blog_submit p res st in (Some c, st'))"

text \<open>
  \<open>router.push("/blog")\<close> leaves the page: \<open>AddBlog\<close> unmounts, so an event after
  the navigation (in particular the answer of an upload still in flight, whose
  \<open>setFormData\<close> and \<open>setImageName\<close> React ignores on an unmounted component)
  changes nothing of the page and sends nothing.  Navigation is taken to complete
  before the next event.
\<close>

definition blog_step :: "blog_params \<Rightarrow> add_blog_state \<Rightarrow> blog_event \<Rightarrow> api_call option \<times> add_blog_state" where
  "blog_step p st ev = (if pushed st \<noteq> [] then (None, st) else blog_handle p st ev)"

text \<open>A run of events from a state: the calls sent, in order, and the final state.\<close>

fun blog_run :: "blog_params \<Rightarrow> add_blog_state \<Rightarrow> blog_event list \<Rightarrow> api_call list \<times> add_blog_state" where
  "blog_run p st [] = ([], st)"
| "blog_run p st (ev # evs) =
     (let (c, st') = blog_step p st ev; (cs, st'') = blog_run p st' evs
      in (case c of None \<Rightarrow> cs | Some x \<Rightarrow> x # cs, st''))"

text \<open>The keys of \<open>formData\<close>, in the order of its initial value.\<close>

definition blog_keys :: "string list" where
  "blog_keys = [''title'', ''image'', ''description'']"

text \<open>The labels that depend on the mode.\<close>

definition blog_labels :: "blog_params \<Rightarrow> string \<times> string" where
  "blog_labels p = (case edit_id p of Some _ \<Rightarrow> (''Edit Blog'', ''Update Blog'') | None \<Rightarrow> (''Create Blog'', ''Add Blog''))"




section \<open>The form object keeps its keys\<close>

lemma keys_set_key: "k \<in> set (map fst obj) \<Longrightarrow> map fst (set_key k v obj) = map fst obj"
  by (simp add: set_key_def update_keys)

lemma map_of_set_key: "map_of (set_key k v obj) = (map_of obj)(k \<mapsto> v)"
  by (simp add: set_key_def update_conv')

lemma blog_step_keys:
  "map fst (formData st) = blog_keys \<Longrightarrow> map fst (formData (snd (blog_step p st ev))) = blog_keys"
  unfolding blog_step_def by (cases ev)
     (auto simp: upload_start_def upload_finish_def handle_cancel_image_def handle_change_def
      handle_editor_change_def blog_submit_def keys_set_key blog_keys_def empty_blog_def Let_def
      split: option.splits upload_outcome.splits mutation_result.splits prod.splits)

lemma blog_run_snd: "snd (blog_run p st (ev # evs)) = snd (blog_run p (snd (blog_step p st ev)) evs)"
  by (simp split: prod.split)

lemma blog_run_preserves:
  assumes "\<And>st ev. ev \<in> set evs \<Longrightarrow> P st \<Longrightarrow> P (snd (blog_step p st ev))" and "P st"
  shows "P (snd (blog_run p st evs))"
  using assms by (induction evs arbitrary: st) (simp_all add: blog_run_snd del: blog_run.simps(2))

lemma blog_start_keys: "map fst (formData (populate p (add_blog_init p))) = blog_keys"
  by (simp add: populate_def add_blog_init_def empty_blog_def blog_keys_def split: option.split)

text \<open>
  C14: Whatever events the page receives (uploads started and answered, in any order and
  with any outcome,
  cancellations, title and editor input, submissions with any result), the form object
  keeps exactly the keys title, image and description, in that order: the JSON body
  never gains or loses a field.
\<close>

theorem blog_run_keys:
  "map fst (formData (snd (blog_run p (populate p (add_blog_init p)) evs))) = blog_keys"
  by (rule blog_run_preserves [where P = "\<lambda>st. map fst (formData st) = blog_keys"])
     (simp_all add: blog_step_keys blog_start_keys)

section \<open>Edit mode\<close>

lemma blog_step_description:
  "map_of (formData st) ''description'' = Some (JStr []) \<Longrightarrow> \<forall>c. ev \<noteq> EditorInput c \<Longrightarrow>
   map_of (formData (snd (blog_step p st ev))) ''description'' = Some (JStr [])"
  unfolding blog_step_def by (cases ev)
     (auto simp: upload_start_def upload_finish_def handle_cancel_image_def handle_change_def
      blog_submit_def map_of_set_key empty_blog_def Let_def
      split: option.splits upload_outcome.splits mutation_result.splits prod.splits)

text \<open>
  C15: Editing a blog (the URL carries a non-empty id): the form is filled from the URL
  with an empty description, so unless the editor content is changed, the update sent
  carries an empty description and erases the stored one.
\<close>

theorem edit_erases_description:
  assumes "param_id p = Some i" and "i \<noteq> []" and "\<forall>c. EditorInput c \<notin> set evs"
  shows "\<exists>fd. fst (blog_submit p res (snd (blog_run p (populate p (add_blog_init p)) evs))) =
             Blog (updateBlog i (JObj fd)) \<and> map_of fd ''description'' = Some (JStr [])"
proof -
  have step: "map_of (formData (snd (blog_step p st ev))) ''description'' = Some (JStr [])"
    if "ev \<in> set evs" "map_of (formData st) ''description'' = Some (JStr [])" for st ev
    using that assms(3) by (intro blog_step_description) auto
  have mode: "edit_id p = Some i"
    using assms(1,2) by (simp add: edit_id_def)
  have "map_of (formData (snd (blog_run p (populate p (add_blog_init p)) evs))) ''description'' =
        Some (JStr [])"
    using mode
    by (intro blog_run_preserves [where P = "\<lambda>st. map_of (formData st) ''description'' = Some (JStr [])"])
       (auto simp: step populate_def)
  with mode show ?thesis by (simp add: blog_submit_def)
qed

section \<open>Image upload and submission\<close>

text \<open>
  C29: When the image upload fails, the preview already shows the new file while the
  form keeps its previous image: what is submitted differs from what is shown.
\<close>

theorem failed_upload_stale_preview:
  "fst (handle_blog_image_upload (Some f) (UploadThrows m) st) = Some (upload_call_for f) \<and>
   imagePreview (snd (handle_blog_image_upload (Some f) (UploadThrows m) st)) = Some (object_url f) \<and>
   formData (snd (handle_blog_image_upload (Some f) (UploadThrows m) st)) = formData st \<and>
   (\<exists>msg. blog_toasts (snd (handle_blog_image_upload (Some f) (UploadThrows m) st)) =
          blog_toasts st @ [ToastError msg])"
  by (simp add: handle_blog_image_upload_def Let_def)

text \<open>
  A successful upload whose response carries a non-empty data.url puts that URL
  into the form's image field and into imageName.
\<close>

theorem upload_sets_image:
  assumes "u \<noteq> []"
  shows "map_of (formData (snd (handle_blog_image_upload (Some f)
            (UploadReturns (JObj [(''data'', JObj [(''url'', JStr u)])])) st))) ''image'' = Some (JStr u) \<and>
         imageName (snd (handle_blog_image_upload (Some f)
            (UploadReturns (JObj [(''data'', JObj [(''url'', JStr u)])])) st)) = JStr u"
  using assms by (simp add: handle_blog_image_upload_def Let_def map_of_set_key)

text \<open>
  C30: A failed submission, in either mode, keeps the form and the location and shows
  "Failed to add blog" (also when an update failed).
\<close>

theorem blog_submit_failure:
  "blog_toasts (snd (blog_submit p MutError st)) = blog_toasts st @ [ToastError ''Failed to add blog''] \<and>
   formData (snd (blog_submit p MutError st)) = formData st \<and>
   pushed (snd (blog_submit p MutError st)) = pushed st"
  by (simp add: blog_submit_def split: option.split)

text \<open>
  A successful submission navigates to /blog; an add also empties the form and the
  preview, an update keeps them.
\<close>

theorem blog_submit_success:
  "pushed (snd (blog_submit p (MutData d) st)) = pushed st @ [''/blog''] \<and>
   formData (snd (blog_submit p (MutData d) st)) =
     (if edit_id p = None then empty_blog else formData st) \<and>
   imagePreview (snd (blog_submit p (MutData d) st)) =
     (if edit_id p = None then None else imagePreview st)"
  by (simp add: blog_submit_def split: option.split)

text \<open>
  Run without interruption, the upload handler is its synchronous part followed by its
  continuation: the page's split reading agrees with the handler read as one block.
\<close>

lemma upload_handler_split:
  "handle_blog_image_upload file out st =
     (case upload_start file st of
        (None, st1) \<Rightarrow> (None, st1)
      | (Some c, st1) \<Rightarrow> (Some c, upload_finish out st1))"
  by (simp add: handle_blog_image_upload_def upload_start_def upload_finish_def Let_def
      split: option.splits upload_outcome.splits)

text \<open>
  C13: Submitting while an image upload is in flight sends the form without the new
  image, although the preview already shows it.  When the submission succeeds the page
  navigates away and unmounts, so the upload's answer, whatever it is, is lost: the
  uploaded image is attached to no blog.
\<close>

theorem upload_answer_after_submit:
  assumes "pushed st = []"
  shows "fst (blog_run p st [UploadStarted (Some f), SubmitForm (MutData d), UploadAnswered out]) =
           [upload_call_for f,
            Blog (case edit_id p of Some i \<Rightarrow> updateBlog i (JObj (formData st))
                                  | None \<Rightarrow> addblog (JObj (formData st)))] \<and>
         imagePreview (snd (upload_start (Some f) st)) = Some (object_url f) \<and>
         snd (blog_run p st [UploadStarted (Some f), SubmitForm (MutData d), UploadAnswered out]) =
           snd (blog_run p st [UploadStarted (Some f), SubmitForm (MutData d)])"
  using assms by (simp add: blog_step_def upload_start_def blog_submit_def split: option.split)

section \<open>Witnesses\<close>

theorem edit_erases_description_witness:
  "\<exists>fd. fst (blog_submit \<lparr>param_id = Some ''b1'', param_title = Some ''Hi'', param_image = Some ''i.png''\<rparr> MutError
      (snd (blog_run \<lparr>param_id = Some ''b1'', param_title = Some ''Hi'', param_image = Some ''i.png''\<rparr> (populate \<lparr>param_id = Some ''b1'', param_title = Some ''Hi'', param_image = Some ''i.png''\<rparr> (add_blog_init \<lparr>param_id = Some ''b1'', param_title = Some ''Hi'', param_image = Some ''i.png''\<rparr>)) [TitleInput ''Hello'']))) =
    Blog (updateBlog ''b1'' (JObj fd)) \<and> map_of fd ''description'' = Some (JStr [])"
  using edit_erases_description [of "\<lparr>param_id = Some ''b1'', param_title = Some ''Hi'', param_image = Some ''i.png''\<rparr>" "''b1''" "[TitleInput ''Hello'']" MutError]
  by simp

theorem upload_sets_image_witness:
  "map_of (formData (snd (handle_blog_image_upload (Some (File ''a.png''))
     (UploadReturns (JObj [(''data'', JObj [(''url'', JStr ''https://cdn/a.png'')])]))
     (add_blog_init \<lparr>param_id = Some ''b1'', param_title = Some ''Hi'', param_image = Some ''i.png''\<rparr>)))) ''image'' = Some (JStr ''https://cdn/a.png'')"
  using upload_sets_image [of "''https://cdn/a.png''" "File ''a.png''" "add_blog_init \<lparr>param_id = Some ''b1'', param_title = Some ''Hi'', param_image = Some ''i.png''\<rparr>"]
  by simp

theorem upload_answer_after_submit_witness:
  "fst (blog_run \<lparr>param_id = None, param_title = None, param_image = None\<rparr>
      (add_blog_init \<lparr>param_id = None, param_title = None, param_image = None\<rparr>)
      [UploadStarted (Some (File ''a.png'')), SubmitForm (MutData JNull),
       UploadAnswered (UploadReturns (JObj [(''data'', JObj [(''url'', JStr ''https://cdn/a.png'')])]))]) =
     [upload_call_for (File ''a.png''), Blog (addblog (JObj empty_blog))] \<and>
   snd (blog_run \<lparr>param_id = None, param_title = None, param_image = None\<rparr>
      (add_blog_init \<lparr>param_id = None, param_title = None, param_image = None\<rparr>)
      [UploadStarted (Some (File ''a.png'')), SubmitForm (MutData JNull),
       UploadAnswered (UploadReturns (JObj [(''data'', JObj [(''url'', JStr ''https://cdn/a.png'')])]))]) =
   snd (blog_run \<lparr>param_id = None, param_title = None, param_image = None\<rparr>
      (add_blog_init \<lparr>param_id = None, param_title = None, param_image = None\<rparr>)
      [UploadStarted (Some (File ''a.png'')), SubmitForm (MutData JNull)])"
  using upload_answer_after_submit [of "add_blog_init \<lparr>param_id = None, param_title = None, param_image = None\<rparr>"
      "\<lparr>param_id = None, param_title = None, param_image = None\<rparr>" "File ''a.png''" JNull
      "UploadReturns (JObj [(''data'', JObj [(''url'', JStr ''https://cdn/a.png'')])])"]
  by (simp add: add_blog_init_def edit_id_def)

end
