(* ===== verification/Views.thy ===== *)
theory Views
  imports Cache
begin

text \<open>
  The views that only read the cache: the dashboard's order counters, cards and chart
  props (\<open>src/src/components/Dashboard/DashboardOverview.tsx\<close>), the product listing
  (\<open>src/src/components/All Products/AllProducts.tsx\<close>) and the order/user detail
  modal (\<open>src/src/components/ModalData/ModalData.tsx\<close>).  A \<open>use...Query\<close> hook
  reads its cache entry through \<open>use_query\<close>, RTK Query's result object cut down to the
  two fields the views select (\<open>data\<close> and \<open>isLoading\<close>); each view is a function
  of those results, so every cache lemma transfers to what the page shows.
\<close>

section \<open>Reading a query\<close>

text \<open>
  The result of a mounted query hook: the last data received, and \<open>isLoading\<close>, true
  while the first request of the key is running (pending, no data yet).  A hook whose
  entry does not exist yet reads as loading: RTK reports a mounted, not skipped query
  as loading before its request starts.
\<close>

record query_result =
  rq_data :: "json option"
  rq_isLoading :: bool

definition use_query :: "cache \<Rightarrow> api_call \<Rightarrow> query_result" where
  "use_query c k =
     (case map_of (entries c) k of
        None \<Rightarrow> \<lparr>rq_data = None, rq_isLoading = True\<rparr>
      | Some e \<Rightarrow> \<lparr>rq_data = qdata e, rq_isLoading = (qstatus e = Pending \<and> qdata e = None)\<rparr>)"

text \<open>
  \<open>v?.length\<close>: the length of an array, or of a string (counted in characters), and
  \<open>undefined\<close> for every other value.
\<close>

fun js_length :: "json \<Rightarrow> nat option" where
  "js_length (JArr xs) = Some (length xs)"
| "js_length (JStr s) = Some (length s)"
| "js_length _ = None"

text \<open>\<open>data?.data?.length\<close>.\<close>

definition data_length :: "json option \<Rightarrow> nat option" where
  "data_length d = Option.bind d (\<lambda>v. Option.bind (json_get ''data'' v) js_length)"

section \<open>Dashboard overview\<close>

text \<open>
  The four \<open>useOrderHistoryQuery\<close> hooks of the overview, in the order they mount:
  all orders (the empty status), then delivered, shipped and pending ones.
\<close>

definition dashboard_statuses :: "string list" where
  "dashboard_statuses = [[], ''DELIVERED'', ''SHIPPED'', ''PENDING'']"

definition dashboard_mount :: "cache \<Rightarrow> cache" where
  "dashboard_mount c = fold (\<lambda>st. subscribe (Product (orderHistory st))) dashboard_statuses c"

text \<open>
  What \<open>selectFromResult\<close> extracts: the four counters shown on the cards, and
  \<open>isloading\<close>, which the code reads as \<open>data?.isLoading\<close>, a member of the
  response body, not the hook's \<open>isLoading\<close> flag.
\<close>

record dashboard_counters =
  allOrder :: "nat option"
  completedOrder :: "nat option"
  shippedOrder :: "nat option"
  pendingOrder :: "nat option"
  isloading :: "json option"

definition dashboard_view :: "cache \<Rightarrow> dashboard_counters" where
  "dashboard_view c =
     \<lparr>allOrder = data_length (rq_data (use_query c (Product (orderHistory [])))),
      completedOrder = data_length (rq_data (use_query c (Product (orderHistory ''DELIVERED'')))),
      shippedOrder = data_length (rq_data (use_query c (Product (orderHistory ''SHIPPED'')))),
      pendingOrder = data_length (rq_data (use_query c (Product (orderHistory ''PENDING'')))),
      isloading = Option.bind (rq_data (use_query c (Product (orderHistory []))))
                    (json_get ''isLoading'')\<rparr>"

text \<open>
  What the overview renders from the counters: four cards, each a title and the
  \<open>end\<close> of its \<open>CountUp\<close> (followed by "Orders"), and the props of
  \<open>CompletedChart\<close> (\<open>totalEvent\<close>, \<open>completedEvent\<close>).
\<close>

record dashboard_page =
  cards :: "(string \<times> nat option) list"
  chart_total :: "nat option"
  chart_completed :: "nat option"

definition dashboard_render :: "dashboard_counters \<Rightarrow> dashboard_page" where
  "dashboard_render d =
     \<lparr>cards = [(''Total Order Created'', allOrder d), (''Total Completed Order'', completedOrder d),
               (''Total Pending Order'', pendingOrder d), (''Total Shipped Order'', shippedOrder d)],
      chart_total = allOrder d, chart_completed = completedOrder d\<rparr>"

text \<open>A response of \<open>orderHistory\<close> listing the orders \<open>xs\<close>.\<close>

definition order_list :: "json list \<Rightarrow> json" where
  "order_list xs = JObj [(''data'', JArr xs)]"

section \<open>Product listing\<close>

text \<open>
  What \<open>AllProducts\<close> renders: the loader while the first request runs; otherwise,
  when \<open>result?.length > 0\<close>, one card per element of \<open>result.map\<close>, which throws
  when \<open>result\<close> has a positive length but is not an array (a string, or an object
  with a numeric \<open>length\<close> member); otherwise "No Product Found".  An object whose
  \<open>length\<close> member is not a number counts as not positive.
\<close>

datatype listing = Loader | ProductCards "json list" | NoProductFound | MapThrows

text \<open>
  JavaScript's \<open>x > 0\<close> for a value read from JSON converts \<open>x\<close> to a number:
  \<open>true\<close> is 1, \<open>null\<close> is 0, a string is read as a numeric literal (surrounding
  white space dropped, empty meaning 0, anything else \<open>NaN\<close>), an array through its
  string (one element: that element's string; none: 0; several: \<open>NaN\<close>), an object is
  \<open>NaN\<close>.  \<open>str_num_positive\<close> decides \<open>Number(s) > 0\<close> from the literal's
  grammar: an optional sign and \<open>Infinity\<close> or decimal digits with an optional fraction
  and exponent, or an unsigned \<open>0x\<close>/\<open>0o\<close>/\<open>0b\<close> integer; the value is positive
  when the sign is not a minus and a digit of the mantissa is not zero (an exponent
  below the double range, which underflows to 0, is not modelled).
\<close>

definition js_space :: "char \<Rightarrow> bool" where
  "js_space ch = (ch \<in> {CHR '' '', CHR 0x09, CHR 0x0A, CHR 0x0B, CHR 0x0C, CHR 0x0D, CHR 0xA0})"

definition digits_in :: "string \<Rightarrow> string \<Rightarrow> bool" where
  "digits_in ds s = (s \<noteq> [] \<and> list_all (\<lambda>ch. ch \<in> set ds) s)"

definition dec_mantissa_ok :: "string \<Rightarrow> bool" where
  "dec_mantissa_ok m =
     (let ip = takeWhile (\<lambda>ch. ch \<in> set ''0123456789'') m; rest = drop (length ip) m in
      (rest = [] \<and> ip \<noteq> []) \<or>
      (rest \<noteq> [] \<and> hd rest = CHR ''.'' \<and> list_all (\<lambda>ch. ch \<in> set ''0123456789'') (tl rest) \<and>
       (ip \<noteq> [] \<or> tl rest \<noteq> [])))"

definition exponent_ok :: "string \<Rightarrow> bool" where
  "exponent_ok e =
     (e = [] \<or>
      (let d = tl e in digits_in ''0123456789''
         (if d \<noteq> [] \<and> (hd d = CHR ''+'' \<or> hd d = CHR ''-'') then tl d else d)))"

definition str_num_positive :: "string \<Rightarrow> bool" where
  "str_num_positive s =
     (let t = rev (dropWhile js_space (rev (dropWhile js_space s))) in
      if take 2 t \<in> {''0x'', ''0X''} then digits_in ''0123456789abcdefABCDEF'' (drop 2 t) \<and>
                                          \<not> list_all (\<lambda>ch. ch = CHR ''0'') (drop 2 t)
      else if take 2 t \<in> {''0o'', ''0O''} then digits_in ''01234567'' (drop 2 t) \<and>
                                          \<not> list_all (\<lambda>ch. ch = CHR ''0'') (drop 2 t)
      else if take 2 t \<in> {''0b'', ''0B''} then digits_in ''01'' (drop 2 t) \<and>
                                          \<not> list_all (\<lambda>ch. ch = CHR ''0'') (drop 2 t)
      else if t \<noteq> [] \<and> hd t = CHR ''-'' then False
      else
        let u = (if t \<noteq> [] \<and> hd t = CHR ''+'' then tl t else t);
            m = takeWhile (\<lambda>ch. ch \<noteq> CHR ''e'' \<and> ch \<noteq> CHR ''E'') u
        in u = ''Infinity'' \<or>
           (dec_mantissa_ok m \<and> exponent_ok (drop (length m) u) \<and> list_ex (\<lambda>ch. ch \<in> set ''123456789'') m))"

fun js_gt_zero :: "json \<Rightarrow> bool" where
  "js_gt_zero (JNum n) = (0 < n)"
| "js_gt_zero (JBool b) = b"
| "js_gt_zero JNull = False"
| "js_gt_zero (JStr s) = str_num_positive s"
| "js_gt_zero (JArr [x]) = (case x of JNum _ \<Rightarrow> js_gt_zero x | JStr _ \<Rightarrow> js_gt_zero x | JArr _ \<Rightarrow> js_gt_zero x | _ \<Rightarrow> False)"
| "js_gt_zero (JArr _) = False"
| "js_gt_zero (JObj _) = False"

definition all_products_view :: "query_result \<Rightarrow> listing" where
  "all_products_view r =
     (if rq_isLoading r then Loader
      else case Option.bind (rq_data r) (json_get ''data'') of
        Some (JArr xs) \<Rightarrow> if 0 < length xs then ProductCards xs else NoProductFound
      | Some (JStr s) \<Rightarrow> if 0 < length s then MapThrows else NoProductFound
      | Some (JObj kvs) \<Rightarrow>
          (case map_of kvs ''length'' of
             Some v \<Rightarrow> if js_gt_zero v then MapThrows else NoProductFound
           | None \<Rightarrow> NoProductFound)
      | _ \<Rightarrow> NoProductFound)"

definition all_products_page :: "cache \<Rightarrow> listing" where
  "all_products_page c = all_products_view (use_query c (Product allProducts))"

section \<open>Order and user detail modal\<close>

text \<open>
  A value placed as a React child: strings, numbers and arrays render, \<open>null\<close>,
  \<open>undefined\<close> and booleans render nothing, and a plain object makes React throw.
\<close>

datatype child = ChildText json | ChildNothing | ChildThrows

fun react_child :: "json option \<Rightarrow> child" where
  "react_child None = ChildNothing"
| "react_child (Some JNull) = ChildNothing"
| "react_child (Some (JBool _)) = ChildNothing"
| "react_child (Some (JObj _)) = ChildThrows"
| "react_child (Some v) = ChildText v"

text \<open>\<open>ModalData({address, userInfo})\<close>: six labelled lines.\<close>

definition modal_data :: "json option \<Rightarrow> json option \<Rightarrow> (string \<times> child) list" where
  "modal_data address userInfo =
     [(''Name: '', react_child (Option.bind userInfo (json_get ''name''))),
      (''Email: '', react_child (Option.bind userInfo (json_get ''email''))),
      (''Address: '', react_child (Option.bind address (json_get ''address''))),
      (''City: '', react_child (Option.bind address (json_get ''city''))),
      (''Country: '', react_child (Option.bind address (json_get ''country''))),
      (''Phone: '', react_child (Option.bind address (json_get ''phone'')))]"

fun is_object :: "json option \<Rightarrow> bool" where
  "is_object (Some (JObj _)) = True"
| "is_object _ = False"

section \<open>Lemmas on reading the cache\<close>

lemma use_query_resolve_data:
  assumes "k \<in> set (in_flight c)" and "map_of (entries c) k = Some e"
  shows "use_query (resolve k (Some d) c) k = \<lparr>rq_data = Some d, rq_isLoading = False\<rparr>"
  using assms by (simp add: use_query_def resolve_def Let_def update_conv')

lemma use_query_subscribe_new:
  "map_of (entries c) k = None \<Longrightarrow>
   use_query (subscribe k c) k = \<lparr>rq_data = None, rq_isLoading = True\<rparr>"
  by (simp add: use_query_def subscribe_def update_conv' new_entry_def)

text \<open>
  An entry with data and a subscribed view keeps showing its data whatever a mutation's
  response does: a hit refetches it in the background without a loader.
\<close>

lemma use_query_settle_kept:
  assumes "distinct (map fst (entries c))" and "map_of (entries c) k = Some e"
    and "qdata e = Some d" and "0 < subscribers e"
  shows "use_query (settle m r c) k = \<lparr>rq_data = Some d, rq_isLoading = False\<rparr>"
  using assms
  by (cases "m \<in> set (mutations c)")
     (auto simp: use_query_def settle_def Let_def invalidate_def map_of_invalidate_entries
      dropped_def simp del: map_of_eq_Some_iff)

lemma react_child_throws: "react_child v = ChildThrows \<longleftrightarrow> is_object v"
  by (cases v rule: react_child.cases) simp_all

lemma use_query_pending_view:
  "map_of (entries c) k = Some e \<Longrightarrow> qstatus e = Pending \<Longrightarrow> qdata e = None \<Longrightarrow>
   use_query c k = \<lparr>rq_data = None, rq_isLoading = True\<rparr>"
  by (simp add: use_query_def)

section \<open>Dashboard overview\<close>

text \<open>
  Mounting the overview on a cache holding none of its queries sends the four
  order-history requests, in the order of the hooks; until they answer, every counter
  is \<open>undefined\<close>.
\<close>

theorem dashboard_mount_requests:
  assumes "\<forall>st \<in> set dashboard_statuses. map_of (entries c) (Product (orderHistory st)) = None"
  shows "sent (dashboard_mount c) = sent c @ map (\<lambda>st. Product (orderHistory st)) dashboard_statuses \<and>
         dashboard_view (dashboard_mount c) =
           \<lparr>allOrder = None, completedOrder = None, shippedOrder = None, pendingOrder = None,
            isloading = None\<rparr>"
  using assms
  by (simp add: dashboard_mount_def dashboard_statuses_def subscribe_def update_conv'
      dashboard_view_def use_query_def new_entry_def data_length_def)

text \<open>
  C18: When an order's status update succeeds, each of the overview's four counter
  queries that has settled with data is refetched exactly once, and the counters keep
  their values (no loader) until the new responses arrive.
\<close>

theorem order_status_refreshes_dashboard:
  assumes r: "reachable c"
    and m: "Product (orderStatus i s) \<in> set (mutations c)"
    and act: "\<forall>st \<in> set dashboard_statuses. \<exists>e.
               map_of (entries c) (Product (orderHistory st)) = Some e \<and> qstatus e \<noteq> Pending \<and>
               qdata e \<noteq> None \<and> 0 < subscribers e"
  shows "dashboard_view (settle (Product (orderStatus i s)) MutFulfilled c) = dashboard_view c \<and>
         (\<forall>st \<in> set dashboard_statuses.
            count_list (sent (settle (Product (orderStatus i s)) MutFulfilled c)) (Product (orderHistory st)) =
              Suc (count_list (sent c) (Product (orderHistory st))))"
proof -
  let ?m = "Product (orderStatus i s)"
  have d: "distinct (map fst (entries c))"
    using reachable_inv [OF r] by (simp add: cache_inv_def)
  have kept: "use_query (settle ?m MutFulfilled c) (Product (orderHistory st)) =
              use_query c (Product (orderHistory st))" if st: "st \<in> set dashboard_statuses" for st
  proof -
    obtain e where e: "map_of (entries c) (Product (orderHistory st)) = Some e"
      and dat: "qdata e \<noteq> None" and sub: "0 < subscribers e"
      using bspec [OF act st] by auto
    then obtain x where "qdata e = Some x" by auto
    with d e sub show ?thesis
      by (simp add: use_query_settle_kept) (simp add: use_query_def)
  qed
  have sent: "count_list (sent (settle ?m MutFulfilled c)) (Product (orderHistory st)) =
              Suc (count_list (sent c) (Product (orderHistory st)))" if st: "st \<in> set dashboard_statuses" for st
  proof -
    obtain e where e: "map_of (entries c) (Product (orderHistory st)) = Some e"
      and np: "qstatus e \<noteq> Pending" and sub: "0 < subscribers e"
      using bspec [OF act st] by auto
    have t: "provided e = api_provides (Product (orderHistory st))"
      using reachable_provided [OF r e] np by simp
    have r: "refetched (api_invalidates ?m) e"
      using np sub t by (simp add: refetched_def hit_def)
    have "count_list (refetch_keys (api_invalidates ?m) (entries c)) (Product (orderHistory st)) = 1"
      using d e r by (auto simp: count_refetch_keys simp del: map_of_eq_Some_iff)
    with m show ?thesis
      by (simp add: settle_def Let_def invalidate_def)
  qed
  have "dashboard_view (settle ?m MutFulfilled c) = dashboard_view c"
    unfolding dashboard_view_def
    using kept[of "[]"] kept[of "''DELIVERED''"] kept[of "''SHIPPED''"] kept[of "''PENDING''"]
    by (simp add: dashboard_statuses_def)
  with sent show ?thesis by blast
qed

text \<open>
  C19: Once the four order-history responses have arrived after the overview mounted,
  each card shows the number of orders of the status its title names, and the chart
  gets the total and the completed count.
\<close>

theorem dashboard_shows_counts:
  assumes "\<forall>st \<in> set dashboard_statuses. map_of (entries c) (Product (orderHistory st)) = None"
  shows "dashboard_render (dashboard_view
           (resolve (Product (orderHistory ''PENDING'')) (Some (order_list ps))
           (resolve (Product (orderHistory ''SHIPPED'')) (Some (order_list ss))
           (resolve (Product (orderHistory ''DELIVERED'')) (Some (order_list ds))
           (resolve (Product (orderHistory [])) (Some (order_list xs)) (dashboard_mount c)))))) =
         \<lparr>cards = [(''Total Order Created'', Some (length xs)), (''Total Completed Order'', Some (length ds)),
                   (''Total Pending Order'', Some (length ps)), (''Total Shipped Order'', Some (length ss))],
          chart_total = Some (length xs), chart_completed = Some (length ds)\<rparr>"
  using assms
  by (simp add: dashboard_mount_def dashboard_statuses_def subscribe_def resolve_def Let_def update_conv'
      new_entry_def dashboard_view_def use_query_def data_length_def order_list_def dashboard_render_def)

section \<open>Product listing and modal\<close>

text \<open>
  C31: A first load of the product listing that fails shows "No Product Found", exactly
  what an empty product list shows: the error is not surfaced.
\<close>

theorem listing_error_looks_empty:
  assumes "map_of (entries c) (Product allProducts) = None"
  shows "all_products_page (resolve (Product allProducts) None (subscribe (Product allProducts) c)) =
           NoProductFound \<and>
         all_products_view \<lparr>rq_data = Some (JObj [(''data'', JArr [])]), rq_isLoading = False\<rparr> =
           NoProductFound"
  using assms
  by (simp add: all_products_page_def all_products_view_def use_query_def resolve_def subscribe_def
      Let_def update_conv' new_entry_def)

text \<open>
  The detail modal always shows its six labelled lines, and rendering it throws
  exactly when one of the six fields it reads is an object.
\<close>

theorem modal_throws_iff:
  "map fst (modal_data a u) = [''Name: '', ''Email: '', ''Address: '', ''City: '', ''Country: '', ''Phone: ''] \<and>
   (ChildThrows \<in> snd ` set (modal_data a u) \<longleftrightarrow>
      is_object (Option.bind u (json_get ''name'')) \<or> is_object (Option.bind u (json_get ''email'')) \<or>
      is_object (Option.bind a (json_get ''address'')) \<or> is_object (Option.bind a (json_get ''city'')) \<or>
      is_object (Option.bind a (json_get ''country'')) \<or> is_object (Option.bind a (json_get ''phone'')))"
  by (auto simp: modal_data_def react_child_throws[symmetric])

section \<open>Witnesses\<close>

theorem dashboard_mount_requests_witness:
  "sent (dashboard_mount cache_init) = map (\<lambda>st. Product (orderHistory st)) dashboard_statuses"
  using dashboard_mount_requests [of cache_init]
  by (simp add: cache_init_def dashboard_statuses_def)

theorem order_status_refreshes_dashboard_witness:
  "count_list (sent (settle (Product (orderStatus ''o1'' (JStr ''SHIPPED''))) MutFulfilled
      (trigger (Product (orderStatus ''o1'' (JStr ''SHIPPED'')))
        (fold (\<lambda>st. resolve (Product (orderHistory st)) (Some (JObj [(''data'', JArr [])])))
          dashboard_statuses (dashboard_mount cache_init)))))
     (Product (orderHistory ''PENDING'')) = 2"
proof -
  let ?c = "trigger (Product (orderStatus ''o1'' (JStr ''SHIPPED'')))
        (fold (\<lambda>st. resolve (Product (orderHistory st)) (Some (JObj [(''data'', JArr [])])))
          dashboard_statuses (dashboard_mount cache_init))"
  have r: "reachable ?c"
    unfolding dashboard_mount_def dashboard_statuses_def
    by (simp only: fold_simps)
       (intro reach_trigger reach_resolve reach_subscribe reach_init;
        simp add: subscribe_def resolve_def cache_init_def update_conv' new_entry_def Let_def)
  show ?thesis
    using order_status_refreshes_dashboard [OF r, of "''o1''" "JStr ''SHIPPED''"]
    by (simp add: dashboard_mount_def dashboard_statuses_def subscribe_def resolve_def trigger_def
        cache_init_def update_conv' new_entry_def Let_def)
qed

theorem listing_error_looks_empty_witness:
  "all_products_page (resolve (Product allProducts) None (subscribe (Product allProducts) cache_init)) =
     NoProductFound"
  using listing_error_looks_empty [of cache_init] by (simp add: cache_init_def)

theorem dashboard_shows_counts_witness:
  "cards (dashboard_render (dashboard_view
     (resolve (Product (orderHistory ''PENDING'')) (Some (order_list [JNull]))
     (resolve (Product (orderHistory ''SHIPPED'')) (Some (order_list []))
     (resolve (Product (orderHistory ''DELIVERED'')) (Some (order_list [JNull, JNull]))
     (resolve (Product (orderHistory [])) (Some (order_list [JNull, JNull, JNull])) (dashboard_mount cache_init)))))))
   = [(''Total Order Created'', Some 3), (''Total Completed Order'', Some 2),
      (''Total Pending Order'', Some 1), (''Total Shipped Order'', Some 0)]"
  using dashboard_shows_counts [of cache_init "[JNull]" "[]" "[JNull, JNull]" "[JNull, JNull, JNull]"]
  by (simp add: cache_init_def dashboard_statuses_def)

end
