(* ===== verification/CacheData.thy ===== *)
theory CacheData
  imports Cache
begin

text \<open>
  The cache as the views see it.  \<open>cache_data\<close> abstracts a cache to the data a
  subscribed hook reads for each key; \<open>data_step\<close> is the abstract contract of spec
  section 4.1 on that data: it stays, a key awaiting a response gets new data, or data
  nobody subscribes to is forgotten.  Every concrete step simulates an abstract one, so
  the contract's consequences (a subscribed view never loses its data, and its data
  only changes when its own request answers) hold of the detailed cache.  The theory
  also bounds the requests in flight.
\<close>

section \<open>Abstraction\<close>

definition cache_data :: "cache \<Rightarrow> api_call \<Rightarrow> json option" where
  "cache_data c k = Option.bind (map_of (entries c) k) qdata"

definition is_active :: "cache \<Rightarrow> api_call \<Rightarrow> bool" where
  "is_active c k = (case map_of (entries c) k of None \<Rightarrow> False | Some e \<Rightarrow> 0 < subscribers e)"

text \<open>
  The abstract steps, given which keys have a subscribed view (\<open>act\<close>) and which await
  a response (\<open>aw\<close>).
\<close>

inductive data_step ::
  "(api_call \<Rightarrow> bool) \<Rightarrow> (api_call \<Rightarrow> bool) \<Rightarrow> (api_call \<Rightarrow> json option) \<Rightarrow> (api_call \<Rightarrow> json option) \<Rightarrow> bool"
  for act aw where
  data_keep: "data_step act aw D D"
| data_put: "aw k \<Longrightarrow> data_step act aw D (D(k \<mapsto> d))"
| data_forget: "(\<And>k. k \<notin> A \<Longrightarrow> \<not> act k) \<Longrightarrow> data_step act aw D (D |` A)"

section \<open>Each operation on the abstract data\<close>

lemma cache_data_subscribe: "cache_data (subscribe k c) = cache_data c"
  by (rule ext) (auto simp: cache_data_def subscribe_def update_conv' new_entry_def split: option.splits)

lemma cache_data_unsubscribe: "cache_data (unsubscribe k c) = cache_data c"
  by (rule ext) (auto simp: cache_data_def unsubscribe_def update_conv' split: option.splits)

lemma cache_data_trigger: "cache_data (trigger m c) = cache_data c"
  by (rule ext) (simp add: cache_data_def trigger_def)

lemma cache_data_expire:
  "cache_data (expire k c) = cache_data c \<or>
   (\<not> is_active c k \<and> cache_data (expire k c) = cache_data c |` (- {k}))"
proof (cases "map_of (entries c) k")
  case (Some e)
  show ?thesis
  proof (cases "subscribers e = 0 \<and> qstatus e \<noteq> Pending")
    case True
    then have "cache_data (expire k c) = cache_data c |` (- {k})"
      using Some by (auto simp: cache_data_def expire_def delete_conv' restrict_map_def intro!: ext)
    with True Some show ?thesis by (simp add: is_active_def)
  qed (auto simp: expire_def Some)
qed (simp add: expire_def)

lemma cache_data_resolve:
  "cache_data (resolve k r c) = cache_data c \<or>
   (\<exists>d. k \<in> set (in_flight c) \<and> cache_data (resolve k r c) = (cache_data c)(k \<mapsto> d))"
  by (cases r)
     (auto simp: cache_data_def resolve_def Let_def update_conv' split: option.splits intro!: ext)

lemma cache_data_invalidate:
  assumes "distinct (map fst (entries c))"
  shows "cache_data (invalidate ts c) =
           cache_data c |` {k. \<not> (\<exists>e. map_of (entries c) k = Some e \<and> dropped ts e)}"
proof (rule ext)
  fix k
  show "cache_data (invalidate ts c) k =
          (cache_data c |` {k. \<not> (\<exists>e. map_of (entries c) k = Some e \<and> dropped ts e)}) k"
    using assms
    by (cases "map_of (entries c) k")
       (simp_all add: cache_data_def invalidate_def map_of_invalidate_entries restrict_map_def
        del: map_of_eq_Some_iff)
qed

lemma dropped_not_active:
  "map_of (entries c) k = Some e \<Longrightarrow> dropped ts e \<Longrightarrow> \<not> is_active c k"
  by (simp add: is_active_def dropped_def)

lemma data_step_settle:
  assumes "distinct (map fst (entries c))"
  shows "data_step (is_active c) aw (cache_data c) (cache_data (settle m r c))"
proof -
  let ?c' = "c\<lparr>mutations := remove1 m (mutations c), received := received c @ [m]\<rparr>"
  have same: "cache_data ?c' = cache_data c" "is_active ?c' = is_active c"
    by (rule ext, simp add: cache_data_def is_active_def)+
  have "data_step (is_active c) aw (cache_data c) (cache_data (invalidate (api_invalidates m) ?c'))"
    using assms dropped_not_active[of ?c']
    by (simp add: cache_data_invalidate same del: map_of_eq_Some_iff) (rule data_forget, auto)
  then show ?thesis
    by (auto simp: settle_def Let_def same intro: data_step.intros)
qed

lemma cache_step_refines:
  assumes "cache_step c c'" and "cache_inv c"
  shows "data_step (is_active c) (\<lambda>k. k \<in> set (in_flight c)) (cache_data c) (cache_data c')"
  using assms(1)
proof (cases rule: cache_step.cases)
  case (step_subscribe k)
  then show ?thesis by (simp add: cache_data_subscribe data_keep)
next
  case (step_unsubscribe k)
  then show ?thesis by (simp add: cache_data_unsubscribe data_keep)
next
  case (step_expire k)
  then show ?thesis
    using cache_data_expire[of k c] by (auto intro: data_keep data_forget)
next
  case (step_resolve k r)
  then show ?thesis
    using cache_data_resolve[of k r c] by (auto intro: data_keep data_put)
next
  case (step_trigger m)
  then show ?thesis by (simp add: cache_data_trigger data_keep)
next
  case (step_settle m a)
  then show ?thesis
    using assms(2) by (simp add: cache_inv_def data_step_settle)
qed

text \<open>What the abstract contract promises a subscribed key.\<close>

lemma data_step_active:
  assumes "data_step act aw D D'" and "act k"
  shows "(\<not> aw k \<longrightarrow> D' k = D k) \<and> (D k \<noteq> None \<longrightarrow> D' k \<noteq> None)"
  using assms by (induction rule: data_step.induct) (auto simp: restrict_map_def)

section \<open>The cache refines the contract\<close>

text \<open>
  C7: Every step of a reachable cache simulates a step of the abstract contract on the
  data the views read: the data stays, a key awaiting its response receives new data,
  or data no view subscribes to is forgotten.
\<close>

theorem cache_refines_contract:
  assumes "reachable c" and "cache_step c c'"
  shows "data_step (is_active c) (\<lambda>k. k \<in> set (in_flight c)) (cache_data c) (cache_data c')"
  using cache_step_refines [OF assms(2) reachable_inv [OF assms(1)]] .

text \<open>
  C8: A subscribed view never loses the data it shows, whatever happens next (a
  mutation succeeding or failing, other views mounting or unmounting, entries expiring),
  and its data changes only through the response to its own request.
\<close>

theorem subscribed_data_kept:
  assumes "reachable c" and "cache_step c c'" and "is_active c k"
  shows "(k \<notin> set (in_flight c) \<longrightarrow> cache_data c' k = cache_data c k) \<and>
         (cache_data c k \<noteq> None \<longrightarrow> cache_data c' k \<noteq> None)"
  using data_step_active [OF cache_step_refines [OF assms(2) reachable_inv [OF assms(1)]] assms(3)]
  by simp

text \<open>
  C22: The requests in flight never outnumber the cached queries: there is at most one
  per entry.
\<close>

theorem in_flight_bounded:
  assumes "reachable c"
  shows "length (in_flight c) \<le> length (entries c)"
proof -
  have ci: "cache_inv c" using reachable_inv [OF assms] .
  then have sub: "set (in_flight c) \<subseteq> set (map fst (entries c))"
    by (force simp: cache_inv_def pending_keys_iff dest: map_of_SomeD)
  have "length (in_flight c) = card (set (in_flight c))"
    using ci distinct_card[of "in_flight c"] by (simp add: cache_inv_def)
  also have "\<dots> \<le> card (set (map fst (entries c)))"
    using sub by (simp add: card_mono)
  also have "\<dots> \<le> length (entries c)"
    using card_length[of "map fst (entries c)"] by simp
  finally show ?thesis .
qed

section \<open>Witnesses\<close>

theorem cache_refines_contract_witness:
  "reachable cache_init \<and> cache_step cache_init (subscribe (Product allProducts) cache_init) \<and>
   data_step (is_active cache_init) (\<lambda>k. k \<in> set (in_flight cache_init))
     (cache_data cache_init) (cache_data (subscribe (Product allProducts) cache_init))"
proof -
  have r: "reachable cache_init" by (rule reach_init)
  have s: "cache_step cache_init (subscribe (Product allProducts) cache_init)"
    by (rule step_subscribe) simp
  show ?thesis using r s cache_refines_contract [OF r s] by simp
qed

theorem subscribed_data_kept_witness:
  "cache_data (trigger (Product (deleteProduct ''p1'')) (resolve (Product allProducts) (Some JNull)
      (subscribe (Product allProducts) cache_init))) (Product allProducts) = Some JNull"
proof -
  let ?k = "Product allProducts"
  let ?c1 = "subscribe ?k cache_init"
  let ?c2 = "resolve ?k (Some JNull) ?c1"
  have r1: "reachable ?c1"
    by (rule reach_step [OF reach_init step_subscribe]) simp
  have r2: "reachable ?c2"
    by (rule reach_step [OF r1 step_resolve]) (simp add: subscribe_def cache_init_def)
  have s: "cache_step ?c2 (trigger (Product (deleteProduct ''p1'')) ?c2)"
    by (rule step_trigger) simp
  have a: "is_active ?c2 ?k" and nf: "?k \<notin> set (in_flight ?c2)" and d: "cache_data ?c2 ?k = Some JNull"
    by (simp_all add: is_active_def subscribe_def resolve_def cache_init_def new_entry_def cache_data_def)
  show ?thesis
    using subscribed_data_kept [OF r2 s a] nf d by simp
qed

theorem in_flight_bounded_witness:
  "length (in_flight (subscribe (Product allProducts) cache_init)) \<le>
   length (entries (subscribe (Product allProducts) cache_init))"
proof -
  have "reachable (subscribe (Product allProducts) cache_init)"
    by (rule reach_step [OF reach_init step_subscribe]) simp
  then show ?thesis by (rule in_flight_bounded)
qed

end
