(* ===== verification/PageEffects.thy ===== *)
theory PageEffects
  imports ProductForm BlogForm
begin

text \<open>
  React's render/effect cycle on the two form pages.  After every render React compares
  each \<open>useEffect\<close>'s dependency array with the one of the previous commit; when they
  differ it runs the effect, and an effect that sets state causes another render.  The
  cycle is a loop that need not end (an effect whose dependencies change with every
  render re-renders forever), so \<open>effect_cycle\<close> is a \<open>partial_function (option)\<close>,
  \<open>None\<close> standing for the endless loop.  Instances: the product page's effect on
  \<open>[result, reset]\<close> (\<open>AddProduct.tsx\<close>), driven by page events (typing, the product arriving,
  saving), and the blog page's effect on \<open>[blogId, blogTitle, blogImage]\<close>
  (\<open>AddBlog.tsx\<close>).  Objects are compared by identity: a new response is a new
  \<open>result\<close>, and every \<open>setFormData\<close> makes a new \<open>formData\<close>.
\<close>

section \<open>The effect cycle\<close>

text \<open>
  A value in a dependency array, as \<open>Object.is\<close> compares it: primitives by value,
  objects by identity (the number of the allocation), and the methods react-hook-form
  returns, which keep their identity across renders, by name.
\<close>

datatype js_dep = DepUndef | DepNull | DepStr string | DepObj nat | DepFun string

text \<open>
  \<open>effect_cycle deps eff prev s\<close>: the render with state \<open>s\<close> after a commit whose
  dependencies were \<open>prev\<close> (\<open>None\<close> on mount).  \<open>eff s\<close> is \<open>None\<close> when the effect
  sets no state, otherwise the state of the next render.
\<close>

partial_function (option) effect_cycle ::
  "('s \<Rightarrow> 'd) \<Rightarrow> ('s \<Rightarrow> 's option) \<Rightarrow> 'd option \<Rightarrow> 's \<Rightarrow> 's option" where
  "effect_cycle deps eff prev s =
     (if prev = Some (deps s) then Some s
      else case eff s of
             None \<Rightarrow> Some s
           | Some s' \<Rightarrow> effect_cycle deps eff (Some (deps s)) s')"

section \<open>The product page\<close>

text \<open>
  The page state: the form (\<open>add_product_state\<close>), the hook's \<open>result\<close> with the
  serial number of the response object it is, the number of renders (each render builds
  a new \<open>FormData\<close> object), and the mutations triggered.
\<close>

record product_page =
  pp_form :: add_product_state
  pp_result :: "(nat \<times> product) option"
  pp_renders :: nat
  pp_calls :: "api_call list"

definition product_page_init :: product_page where
  "product_page_init = \<lparr>pp_form = add_product_init, pp_result = None, pp_renders = 1, pp_calls = []\<rparr>"

text \<open>
  A render of the page: the component body runs again, and its
  \<open>const fromData = new FormData()\<close> is a new, empty object.
\<close>

definition render :: "product_page \<Rightarrow> product_page" where
  "render s = s\<lparr>pp_form := (pp_form s)\<lparr>fromData := []\<rparr>, pp_renders := Suc (pp_renders s)\<rparr>"

text \<open>\<open>useEffect(..., [result, reset])\<close>: the dependency array and the effect.\<close>

definition product_effect_deps :: "product_page \<Rightarrow> js_dep list" where
  "product_effect_deps s = [case pp_result s of None \<Rightarrow> DepUndef | Some (n, _) \<Rightarrow> DepObj n, DepFun ''reset'']"

definition product_effect :: "product_page \<Rightarrow> product_page option" where
  "product_effect s =
     (case pp_result s of
        None \<Rightarrow> None
      | Some (_, r) \<Rightarrow> Some (render (s\<lparr>pp_form := reset_from_result r (pp_form s)\<rparr>)))"

definition product_render :: "js_dep list option \<Rightarrow> product_page \<Rightarrow> product_page option" where
  "product_render prev s = effect_cycle product_effect_deps product_effect prev s"

definition product_page_mount :: "product_page option" where
  "product_page_mount = product_render None product_page_init"

text \<open>
  The page's events: typing into the registered inputs (uncontrolled: no render), the
  single-product query delivering a response (a new \<open>result\<close> object, a render), and
  a click on Save with the mutation's outcome (react-hook-form's submit state changes: a
  render).
\<close>

datatype product_page_event =
    TypeValues product_values
  | ProductLoaded product
  | ClickSave mutation_result

fun product_page_step :: "product_page \<Rightarrow> product_page_event \<Rightarrow> product_page option" where
  "product_page_step s (TypeValues v) = Some (s\<lparr>pp_form := (pp_form s)\<lparr>form_values := v\<rparr>\<rparr>)"
| "product_page_step s (ProductLoaded r) =
     product_render (Some (product_effect_deps s))
       (render (s\<lparr>pp_result := Some (case pp_result s of None \<Rightarrow> 0 | Some (n, _) \<Rightarrow> Suc n, r)\<rparr>))"
| "product_page_step s (ClickSave res) =
     (let (c, st') = handle_submit (map_option snd (pp_result s)) res (pp_form s) in
      product_render (Some (product_effect_deps s))
        (render (s\<lparr>pp_form := st', pp_calls := pp_calls s @ (case c of None \<Rightarrow> [] | Some m \<Rightarrow> [m])\<rparr>)))"

fun product_page_run :: "product_page \<Rightarrow> product_page_event list \<Rightarrow> product_page option" where
  "product_page_run s [] = Some s"
| "product_page_run s (e # es) = Option.bind (product_page_step s e) (\<lambda>s'. product_page_run s' es)"

section \<open>The blog page\<close>

text \<open>The blog page state and the identity of its \<open>formData\<close> object.\<close>

record blog_page =
  bp_state :: add_blog_state
  bp_form_obj :: nat

text \<open>\<open>useEffect(..., [blogId, blogTitle, blogImage])\<close>.\<close>

definition blog_effect_deps :: "blog_params \<Rightarrow> blog_page \<Rightarrow> js_dep list" where
  "blog_effect_deps p s =
     [case param_id p of None \<Rightarrow> DepNull | Some i \<Rightarrow> DepStr i, DepStr (blog_title p), DepStr (blog_image p)]"

definition blog_effect :: "blog_params \<Rightarrow> blog_page \<Rightarrow> blog_page option" where
  "blog_effect p s =
     (case edit_id p of
        None \<Rightarrow> None
      | Some _ \<Rightarrow> Some \<lparr>bp_state = populate p (bp_state s), bp_form_obj = Suc (bp_form_obj s)\<rparr>)"

definition blog_page_mount :: "blog_params \<Rightarrow> blog_page option" where
  "blog_page_mount p =
     effect_cycle (blog_effect_deps p) (blog_effect p) None \<lparr>bp_state = add_blog_init p, bp_form_obj = 0\<rparr>"

section \<open>The cycle settles when the effect keeps its dependencies\<close>

lemma effect_cycle_settles:
  assumes "\<And>s'. eff s = Some s' \<Longrightarrow> deps s' = deps s"
  shows "effect_cycle deps eff prev s =
           (if prev = Some (deps s) then Some s else Some (case eff s of None \<Rightarrow> s | Some s' \<Rightarrow> s'))"
proof (cases "prev = Some (deps s)")
  case True
  then show ?thesis by (subst effect_cycle.simps) simp
next
  case False
  show ?thesis
  proof (cases "eff s")
    case None
    with False show ?thesis by (subst effect_cycle.simps) simp
  next
    case (Some s')
    have "effect_cycle deps eff (Some (deps s)) s' = Some s'"
      using assms [OF Some] by (subst effect_cycle.simps) simp
    with False Some show ?thesis by (subst effect_cycle.simps) simp
  qed
qed

lemma product_effect_keeps_deps:
  "product_effect s = Some s' \<Longrightarrow> product_effect_deps s' = product_effect_deps s"
  by (auto simp: product_effect_def product_effect_deps_def render_def split: option.splits)

lemma product_render_eq:
  "product_render prev s =
     (if prev = Some (product_effect_deps s) then Some s
      else Some (case pp_result s of
                   None \<Rightarrow> s
                 | Some (_, r) \<Rightarrow> render (s\<lparr>pp_form := reset_from_result r (pp_form s)\<rparr>)))"
  unfolding product_render_def
  by (subst effect_cycle_settles [OF product_effect_keeps_deps])
     (auto simp: product_effect_deps_def product_effect_def render_def split: option.splits)

lemma product_page_step_returns: "\<exists>s'. product_page_step s e = Some s'"
  by (cases e) (simp_all add: product_render_eq split_def Let_def)

lemma blog_effect_keeps_deps:
  "blog_effect p s = Some s' \<Longrightarrow> blog_effect_deps p s' = blog_effect_deps p s"
  by (simp add: blog_effect_deps_def)

section \<open>Termination of the render cycle\<close>

text \<open>
  C11: The product page never re-renders forever: mounting it returns, and so does every
  sequence of page events (typing, the product arriving, saving), since its effect
  depends on \<open>result\<close> and the stable \<open>reset\<close> and changes neither.
\<close>

theorem product_page_terminates:
  "(\<exists>s0. product_page_mount = Some s0) \<and> (\<exists>s'. product_page_run s evs = Some s')"
proof
  show "\<exists>s0. product_page_mount = Some s0"
    by (simp add: product_page_mount_def product_render_eq)
  show "\<exists>s'. product_page_run s evs = Some s'"
  proof (induction evs arbitrary: s)
    case (Cons e es)
    obtain s1 where "product_page_step s e = Some s1"
      using product_page_step_returns by blast
    with Cons.IH [of s1] show ?case by simp
  qed simp
qed

text \<open>
  C16: Mounting the blog page returns after one run of its effect: in edit mode (a
  non-empty \<open>id\<close>) the form is populated from the URL once (one new \<open>formData\<close>
  object); otherwise, an empty \<open>?id=\<close> included, nothing is set.
\<close>

theorem blog_page_mount_settles:
  "blog_page_mount p =
     Some \<lparr>bp_state = populate p (add_blog_init p),
           bp_form_obj = (case edit_id p of None \<Rightarrow> 0 | Some _ \<Rightarrow> 1)\<rparr>"
  unfolding blog_page_mount_def
  by (subst effect_cycle_settles [OF blog_effect_keeps_deps])
     (auto simp: blog_effect_def populate_def split: option.splits)

section \<open>The order of page events\<close>

text \<open>
  C12: On the edit page, values typed before the product arrives are overwritten by the
  loaded product (the effect on \<open>result\<close> resets the form), while values typed after it
  arrives are kept.
\<close>

theorem typed_before_load_overwritten:
  "map_option (\<lambda>s'. form_values (pp_form s')) (product_page_run s [TypeValues v, ProductLoaded r]) =
     Some (form_values (reset_from_result r (pp_form s))) \<and>
   map_option (\<lambda>s'. form_values (pp_form s')) (product_page_run s [ProductLoaded r, TypeValues v]) =
     Some v"
  by (auto simp: product_render_eq reset_from_result_def product_effect_deps_def render_def
      split: option.splits)

end
