(* ===== verification/Spec2Isabelle.thy ===== *)
theory Spec2Isabelle
  imports Navbar ProductForm BlogForm Views CacheData PageEffects
begin

text \<open>
  \<^bold>\<open>A verification model of the basic-dashboard admin client.\<close>

  The repository is a Next.js/React administration dashboard that talks to a REST API
  through one RTK Query slice.  Three layers cooperate:
  \<^item> the transport, \<open>src/src/Redux/Api/baseApi.ts\<close>: a fixed base URL, and a
    \<open>prepareHeaders\<close> hook that copies the \<open>accessToken\<close> cookie into the
    \<open>Authorization\<close> header; the declared cache tag types;
  \<^item> the endpoint modules \<open>productApi.ts\<close>, \<open>userApi.ts\<close>, \<open>blogApi.ts\<close> and
    \<open>uploadApi.ts\<close> under \<open>src/src/Redux/Api/\<close>: for each query or mutation, its
    URL, method, body and the tags it provides or invalidates;
  \<^item> the views under \<open>src/src/components/\<close>: forms and listings that subscribe to
    queries and trigger mutations.
  Between the endpoints and the views sits RTK Query's cache (library code, not in the
  repository), whose behaviour spec section 4.1 states as a contract: subscriptions share
  requests in flight, a successful mutation refetches the subscribed queries whose tags
  it invalidates and drops the unsubscribed ones, a failed mutation changes nothing.  The
  last point is not what this program gets: its \<open>fetchBaseQuery\<close> returns every
  failure as an error value and its tag lists are static, and RTK invalidates on such a
  rejection as on a success; the model follows the program there.

  \<^bold>\<open>Theories.\<close>
  \<^item> \<open>Prelude\<close>: JavaScript values (JSON, FormData entries, files), \<open>split\<close>,
    \<open>join\<close> and \<open>||\<close> on strings, with their round-trip lemmas.
  \<^item> \<open>Transport\<close> (\<open>baseApi.ts\<close>): \<open>tag\<close>, \<open>tag_types\<close>, \<open>base_url\<close>,
    \<open>prepare_headers\<close>, \<open>join_urls\<close> (fetchBaseQuery's URL joining) and
    \<open>fetch_request\<close>, the request on the wire.
  \<^item> \<open>ProductApi\<close>, \<open>UserApi\<close>, \<open>BlogApi\<close>, \<open>UploadApi\<close>: one datatype of
    calls per module (a constructor per endpoint, named as in the source, carrying its
    argument), the \<open>query\<close> function, and the \<open>providesTags\<close> and
    \<open>invalidatesTags\<close> tables.
  \<^item> \<open>Api\<close>: the interface \<open>api_call\<close> the cache and the views agree on (it is also
    the cache key), \<open>refreshes\<close> (which query a mutation marks stale) and the
    resource a path names.  Lemmas: an endpoint is a query exactly when its request is
    a body-less GET; tags never cross resources except for the upload; a request
    reaches the API server exactly when no string interpolated into its path holds
    \<open>://\<close> (\<open>call_params\<close> lists them per endpoint); the Authorization header is
    the cookie verbatim, on every request.
  \<^item> \<open>Cache\<close>: the cache as a record (entries keyed by \<open>api_call\<close>, requests in
    flight, mutations awaiting their response, logs of requests sent and responses
    received) with one operation per event (\<open>subscribe\<close>, \<open>unsubscribe\<close>,
    \<open>expire\<close>, \<open>resolve\<close>, \<open>trigger\<close>, \<open>settle\<close>) and the step relation
    \<open>cache_step\<close> over them.  How a mutation ends is \<open>base_query_end\<close>: a 2xx
    response fulfils, any other answer rejects with a value (fetchBaseQuery never
    throws), and \<open>settle\<close> invalidates unless the rejection is a plain one.  Three
    invariants, proved by rule induction over \<open>reachable\<close>: the structural one (one
    entry per key, one request in flight per key, exactly for the pending entries), the
    network one (every request sent is answered or still on the network) and the tag
    one (an entry that has settled records exactly the tags its endpoint provides).
    From them: at most one unanswered request per query key in any interleaving; a
    mutation sends exactly one request per subscribed invalidated query, whether it
    succeeded or failed.

  \<^item> \<open>CacheData\<close>: the refinement of the cache against the contract of spec 4.1 seen
    from the views.  \<open>cache_data\<close> abstracts a cache to the data each key shows;
    \<open>data_step\<close> is the abstract step (data stays, a key awaiting its response gets new
    data, unsubscribed data is forgotten); every step of a reachable cache simulates one.
    Consequences: a subscribed view never loses its data and it changes only through its
    own response; requests in flight are bounded by the entries.
  \<^item> \<open>ProductForm\<close> (\<open>components/Add product/AddProduct.tsx\<close>): the form state as a
    record, the zod schema as a function from values to field errors (zodResolver keeps
    the first issue of each field), the \<open>useEffect\<close> reset from the loaded product,
    the image handlers, \<open>onSubmit\<close> for add and update with the awaited mutation result
    as a parameter.  Lemmas: the validation gate, the request sent, the edit round trip
    through \<open>join\<close>/\<open>split\<close> of the sizes, and the paths where input is kept or lost.
  \<^item> \<open>BlogForm\<close> (\<open>components/blogs/AddBlog.tsx\<close>): formData as a JavaScript object
    (an association list), edit mode as a truthy \<open>blogId\<close> (\<open>edit_id\<close>: an empty
    \<open>?id=\<close> is add mode), the edit-mode population from the URL, the image upload
    with its start and its answer as separate events, the change handlers and submit,
    and the page's events as \<open>blog_step\<close> (\<open>blog_handle\<close> while the page is mounted;
    nothing once \<open>router.push\<close> has left it), run over any event sequence by
    \<open>blog_run\<close>.  Lemmas: formData keeps its three keys on every run (induction over
    the events); editing erases the description; a submit during an upload sends the old
    image and, when it succeeds, the upload's answer is lost; upload and submit outcomes.
  \<^item> \<open>Navbar\<close> (\<open>components/Navbar/NavbarSlider.tsx\<close>): the navigation table, dropdown
    toggling, what \<open>renderNavItem\<close> shows, the open and collapsed sidebar, and
    \<open>handleLogOut\<close> over a session record that holds the API cache (\<open>logOut\<close>, an
    action of the auth slice outside \<open>src/\<close>, is modelled from spec 4.3).
  \<^item> \<open>Views\<close>: the pages that only read the cache, through \<open>use_query\<close> (the hook's
    \<open>data\<close> and \<open>isLoading\<close>): the dashboard's four order counters
    (\<open>Dashboard/DashboardOverview.tsx\<close>) with its cards and chart props, the product listing
    (\<open>All Products/AllProducts.tsx\<close>, with JavaScript's conversion in
    \<open>result?.length > 0\<close> as \<open>js_gt_zero\<close>) and the detail modal
    (\<open>ModalData/ModalData.tsx\<close>).
  \<^item> \<open>PageEffects\<close>: the render/effect cycle of React (\<open>effect_cycle\<close>), the
    product page as a machine over page events (typing, the product arriving, saving)
    with its effect on \<open>[result, reset]\<close> (each \<open>render\<close> builds a new, empty
    \<open>FormData\<close>), and the blog page's mount with its effect on
    \<open>[blogId, blogTitle, blogImage]\<close>.  Lemmas: both cycles end; input typed before the
    product arrives is overwritten.
  \<^item> This theory: the scenarios that cross components (spec section 8: the product form,
    its endpoint, the cache and the listing page; the add page's undefined product
    query and the cache).

  \<^bold>\<open>Choices.\<close> Numbers are rationals (prices and counts typed into forms; no
  floating-point effect is in question).  The code's own recursion is structural over a
  list or string, so it needs no fuel.  The one loop that may not end is React's
  render/effect cycle (an effect whose dependencies change at every render re-renders
  forever); it is the \<open>partial_function (option)\<close> \<open>effect_cycle\<close>, \<open>None\<close> being
  the endless loop, and its termination on both form pages is proved as such
  (\<open>product_page_terminates\<close>, \<open>blog_page_mount_settles\<close>).  Dependencies are compared
  as \<open>Object.is\<close> does: objects by identity (a new response, a new \<open>formData\<close>,
  the \<open>FormData\<close> built at each render are new objects).  The cache does not drop an entry whose response is still due
  (the spec does not say what happens to such a request; dropping it would let a second
  request for the key start).  Awaited results (\<open>await mutation(...)\<close>) are
  parameters of the handlers; the blog image upload is split at its \<open>await\<close> so that
  other events can run between the request and its answer.  Navigation by
  \<open>router.push\<close> is taken to complete before the next event, so the blog page takes
  no event after it.  Claims about the cache that need the tags an entry provides take
  a reachable cache and derive them from the endpoint's \<open>providesTags\<close>.

  \<^bold>\<open>Not modelled.\<close> RTK Query itself, the Redux store, the auth slice, the toast
  utility, the charts, the loader and the product card are library code or not under
  \<open>src/\<close>: the cache is modelled from spec 4.1, \<open>logOut\<close> from spec 4.3, the rest is
  not modelled.  Of the markup, what decides what a user sees is modelled (error lines,
  image area, sidebar, dashboard cards, listing branches, modal lines); styling, icons,
  the TinyMCE editor, the chart drawing and the CountUp animation carry no behaviour the
  spec constrains.  The category \<open><select>\<close> of the product form is modelled as a
  free string: its options restrict what a user can pick, not what the schema accepts.  The dashboard's period selector is state no
  element reads.  The dashboard's counters are \<open>data?.data?.length\<close> for arrays and
  strings; a response whose \<open>data\<close> is an object with a \<open>length\<close> member (whose
  value CountUp would receive unconverted) gives no count in the model.
\<close>



section \<open>Across components\<close>

text \<open>
  C17: The scenario of spec section 8, for any valid product form in add mode: submitting
  it sends one multipart POST to the base URL's /products, and when the mutation
  succeeds, an active and settled allProducts listing in the cache is refetched exactly
  once.
\<close>

theorem add_product_refreshes_listing:
  assumes valid: "field_errors (form_values st) = []"
    and call: "fst (handle_submit None res st) = Some m"
    and reach: "reachable c"
    and e: "map_of (entries c) (Product allProducts) = Some e"
    and act: "0 < subscribers e" "qstatus e \<noteq> Pending"
  shows "http_method (fetch_request tok (api_request m)) = POST \<and>
         full_url (fetch_request tok (api_request m)) = base_url @ ''/products'' \<and>
         count_list (sent (settle m MutFulfilled (trigger m c))) (Product allProducts) =
           Suc (count_list (sent c) (Product allProducts))"
proof -
  obtain fd where m: "m = Product (addProduct (FormBody fd))"
    using call add_submit_call [OF valid, of res] by auto
  have wire: "http_method (fetch_request tok (api_request m)) = POST \<and>
              full_url (fetch_request tok (api_request m)) = base_url @ ''/products''"
    by (simp add: m fetch_request_def join_urls_def is_absolute_url_def base_url_facts
        without_leading_slash_def)
  have d: "distinct (map fst (entries c))"
    using reachable_inv [OF reach] by (simp add: cache_inv_def)
  have t: "provided e = api_provides (Product allProducts)"
    using reachable_provided [OF reach e] act(2) by simp
  have r: "refetched (api_invalidates m) e"
    using act t by (simp add: m refetched_def hit_def)
  have mne: "m \<noteq> Product allProducts" by (simp add: m)
  have "count_list (sent (settle m MutFulfilled (trigger m c))) (Product allProducts) =
        count_list (sent (trigger m c)) (Product allProducts) + 1"
    using d e r mne by (simp add: settle_def Let_def invalidate_def count_refetch_keys del: map_of_eq_Some_iff)
  then show ?thesis using wire mne by simp
qed

text \<open>
  C20: Continuing the scenario on the product listing page: while the refetch triggered by
  a successful add runs, the listing keeps showing the cached products (no loader); when
  the refetch answers, it shows the new list, or "No Product Found" if it is empty.
\<close>

theorem add_product_listing_refresh:
  assumes valid: "field_errors (form_values st) = []"
    and call: "fst (handle_submit None res st) = Some m"
    and reach: "reachable c"
    and e: "map_of (entries c) (Product allProducts) = Some e"
    and act: "0 < subscribers e" "qstatus e \<noteq> Pending"
    and old: "qdata e = Some (JObj [(''data'', JArr xs)])" "xs \<noteq> []"
  shows "all_products_page (settle m MutFulfilled (trigger m c)) = ProductCards xs \<and>
         all_products_page (resolve (Product allProducts) (Some (JObj [(''data'', JArr ys)]))
           (settle m MutFulfilled (trigger m c))) = (if ys = [] then NoProductFound else ProductCards ys)"
proof -
  let ?k = "Product allProducts"
  let ?c1 = "trigger m c"
  obtain fd where m: "m = Product (addProduct (FormBody fd))"
    using call add_submit_call [OF valid, of res] by auto
  have d: "distinct (map fst (entries c))"
    using reachable_inv [OF reach] by (simp add: cache_inv_def)
  have d1: "distinct (map fst (entries ?c1))" and e1: "map_of (entries ?c1) ?k = Some e"
    and m1: "m \<in> set (mutations ?c1)"
    using d e by simp_all
  have t: "provided e = api_provides (Product allProducts)"
    using reachable_provided [OF reach e] act(2) by simp
  have r: "refetched (api_invalidates m) e"
    using act t by (simp add: m refetched_def hit_def)
  have during: "all_products_page (settle m MutFulfilled ?c1) = ProductCards xs"
    using use_query_settle_kept [OF d1 e1 old(1) act(1), of m MutFulfilled] old(2)
    by (simp add: all_products_page_def all_products_view_def)
  have inf: "?k \<in> set (in_flight (settle m MutFulfilled ?c1))"
    using d1 e1 m1 r by (auto simp: settle_def Let_def invalidate_def set_refetch_keys)
  have ent: "map_of (entries (settle m MutFulfilled ?c1)) ?k = Some (e\<lparr>qstatus := Pending\<rparr>)"
    using settle_success_entries [OF d1 m1, of ?k] e1 r by (simp add: dropped_def refetched_def)
  have "all_products_page (resolve ?k (Some (JObj [(''data'', JArr ys)])) (settle m MutFulfilled ?c1)) =
        (if ys = [] then NoProductFound else ProductCards ys)"
    using use_query_resolve_data [OF inf ent] by (simp add: all_products_page_def all_products_view_def)
  with during show ?thesis by simp
qed

text \<open>
  C21: On the add page, the product query for the missing route id is requested as
  \<open>/products/undefined\<close>; its failed entry still carries the \<open>allProducts\<close> tag, so
  every successful add requests \<open>/products/undefined\<close> again.
\<close>

theorem add_refetches_undefined_product:
  assumes d: "distinct (map fst (entries c))"
    and none: "map_of (entries c) (single_product_call None) = None"
    and m: "m = Product (addProduct b)"
  shows "url (api_request (single_product_call None)) = ''/products/undefined'' \<and>
         count_list (sent (settle m MutFulfilled (trigger m
           (resolve (single_product_call None) None (subscribe (single_product_call None) c)))))
           (single_product_call None) = count_list (sent c) (single_product_call None) + 2"
proof -
  let ?k = "single_product_call None"
  let ?c1 = "resolve ?k None (subscribe ?k c)"
  have d1: "distinct (map fst (entries (trigger m ?c1)))"
    using d none by (simp add: subscribe_def resolve_def Let_def distinct_update update_conv')
  have e1: "map_of (entries (trigger m ?c1)) ?k =
            Some \<lparr>qstatus = Rejected, qdata = None, subscribers = 1, provided = [AllProducts]\<rparr>"
    using none by (simp add: subscribe_def resolve_def Let_def update_conv' new_entry_def single_product_call_def)
  have r: "refetched (api_invalidates m) \<lparr>qstatus = Rejected, qdata = None, subscribers = 1, provided = [AllProducts]\<rparr>"
    by (simp add: m refetched_def hit_def)
  have "count_list (sent (settle m MutFulfilled (trigger m ?c1))) ?k = count_list (sent (trigger m ?c1)) ?k + 1"
    using d1 e1 r by (simp add: settle_def Let_def invalidate_def count_refetch_keys m del: map_of_eq_Some_iff)
  moreover have "count_list (sent (trigger m ?c1)) ?k = count_list (sent c) ?k + 1"
    using none by (simp add: subscribe_def resolve_def Let_def m single_product_call_def update_conv')
  ultimately show ?thesis by (simp add: single_product_call_def)
qed

section \<open>Witnesses\<close>

theorem add_product_refreshes_listing_witness:
  "count_list (sent (settle (Product (addProduct (FormBody
      [(''bodyData'', FVJson (JObj [(''name'', JStr ''Shirt''), (''category'', JStr ''Clothes''),
        (''color'', JStr ''Red''), (''size'', JArr [JStr ''S'', JStr ''M'']), (''price'', JNum 10),
        (''inStock'', JNum 5), (''description'', JStr ''desc'')])),
       (''productImage'', FVFile (File ''shirt.png''))]))) MutFulfilled (trigger (Product (addProduct (FormBody
      [(''bodyData'', FVJson (JObj [(''name'', JStr ''Shirt''), (''category'', JStr ''Clothes''),
        (''color'', JStr ''Red''), (''size'', JArr [JStr ''S'', JStr ''M'']), (''price'', JNum 10),
        (''inStock'', JNum 5), (''description'', JStr ''desc'')])),
       (''productImage'', FVFile (File ''shirt.png''))])))
      (resolve (Product allProducts) (Some JNull) (subscribe (Product allProducts) cache_init)))))
     (Product allProducts) = 2"
proof -
  let ?st = "add_product_init\<lparr>form_values := \<lparr>p_name = ''Shirt'', p_category = ''Clothes'',
      p_color = ''Red'', p_size = ''S,M'', p_price = Num 10, p_inStock = Num 5,
      p_description = ''desc''\<rparr>, productImage := Some (File ''shirt.png'')\<rparr>"
  let ?m = "Product (addProduct (FormBody
      [(''bodyData'', FVJson (JObj [(''name'', JStr ''Shirt''), (''category'', JStr ''Clothes''),
        (''color'', JStr ''Red''), (''size'', JArr [JStr ''S'', JStr ''M'']), (''price'', JNum 10),
        (''inStock'', JNum 5), (''description'', JStr ''desc'')])),
       (''productImage'', FVFile (File ''shirt.png''))]))"
  let ?c = "resolve (Product allProducts) (Some JNull) (subscribe (Product allProducts) cache_init)"
  let ?e = "\<lparr>qstatus = Fulfilled, qdata = Some JNull, subscribers = 1, provided = [AllProducts]\<rparr>"
  have v: "field_errors (form_values ?st) = []"
    by (simp add: add_product_init_def field_errors_Nil_iff)
  have call: "fst (handle_submit None (MutData (JObj [])) ?st) = Some ?m"
    by (simp add: handle_submit_def field_errors_Nil_iff on_submit_def Let_def add_product_init_def
        body_data_def num_entry_def js_split_def fd_append_file_def)
  have reach: "reachable ?c"
    by (intro reach_resolve reach_subscribe reach_init)
       (simp_all add: subscribe_def cache_init_def)
  have e: "map_of (entries ?c) (Product allProducts) = Some ?e"
    by (simp add: subscribe_def resolve_def cache_init_def new_entry_def Let_def)
  show ?thesis
    using add_product_refreshes_listing [OF v call reach e, of "Some ''tok''"]
    by (simp add: subscribe_def resolve_def cache_init_def Let_def)
qed

theorem add_product_listing_refresh_witness:
  "all_products_page (settle (Product (addProduct (FormBody
      [(''bodyData'', FVJson (JObj [(''name'', JStr ''Shirt''), (''category'', JStr ''Clothes''),
        (''color'', JStr ''Red''), (''size'', JArr [JStr ''S'', JStr ''M'']), (''price'', JNum 10),
        (''inStock'', JNum 5), (''description'', JStr ''desc'')])),
       (''productImage'', FVFile (File ''shirt.png''))]))) MutFulfilled (trigger (Product (addProduct (FormBody
      [(''bodyData'', FVJson (JObj [(''name'', JStr ''Shirt''), (''category'', JStr ''Clothes''),
        (''color'', JStr ''Red''), (''size'', JArr [JStr ''S'', JStr ''M'']), (''price'', JNum 10),
        (''inStock'', JNum 5), (''description'', JStr ''desc'')])),
       (''productImage'', FVFile (File ''shirt.png''))])))
      (resolve (Product allProducts) (Some (JObj [(''data'', JArr [JStr ''Old''])]))
        (subscribe (Product allProducts) cache_init)))) = ProductCards [JStr ''Old'']"
proof -
  let ?st = "add_product_init\<lparr>form_values := \<lparr>p_name = ''Shirt'', p_category = ''Clothes'',
      p_color = ''Red'', p_size = ''S,M'', p_price = Num 10, p_inStock = Num 5,
      p_description = ''desc''\<rparr>, productImage := Some (File ''shirt.png'')\<rparr>"
  let ?m = "Product (addProduct (FormBody
      [(''bodyData'', FVJson (JObj [(''name'', JStr ''Shirt''), (''category'', JStr ''Clothes''),
        (''color'', JStr ''Red''), (''size'', JArr [JStr ''S'', JStr ''M'']), (''price'', JNum 10),
        (''inStock'', JNum 5), (''description'', JStr ''desc'')])),
       (''productImage'', FVFile (File ''shirt.png''))]))"
  let ?c = "resolve (Product allProducts) (Some (JObj [(''data'', JArr [JStr ''Old''])]))
        (subscribe (Product allProducts) cache_init)"
  let ?e = "\<lparr>qstatus = Fulfilled, qdata = Some (JObj [(''data'', JArr [JStr ''Old''])]),
      subscribers = 1, provided = [AllProducts]\<rparr>"
  have v: "field_errors (form_values ?st) = []"
    by (simp add: add_product_init_def field_errors_Nil_iff)
  have call: "fst (handle_submit None (MutData (JObj [])) ?st) = Some ?m"
    by (simp add: handle_submit_def field_errors_Nil_iff on_submit_def Let_def add_product_init_def
        body_data_def num_entry_def js_split_def fd_append_file_def)
  have reach: "reachable ?c"
    by (intro reach_resolve reach_subscribe reach_init)
       (simp_all add: subscribe_def cache_init_def)
  have e: "map_of (entries ?c) (Product allProducts) = Some ?e"
    by (simp add: subscribe_def resolve_def cache_init_def new_entry_def Let_def)
  show ?thesis
    using add_product_listing_refresh [OF v call reach e, of "[JStr ''Old'']"]
    by simp
qed

theorem add_refetches_undefined_product_witness:
  "count_list (sent (settle (Product (addProduct NoBody)) MutFulfilled (trigger (Product (addProduct NoBody))
     (resolve (single_product_call None) None (subscribe (single_product_call None) cache_init)))))
     (single_product_call None) = 2"
  using add_refetches_undefined_product [of cache_init "Product (addProduct NoBody)" NoBody]
  by (simp add: cache_init_def)

end
